theory Spec2Isabelle
  imports Main
begin

section \<open>The limine bootloader step of the Polaris installer\<close>

text \<open>
  A shallow embedding of \<^verbatim>\<open>InstallerHack._add_limine_bootloader\<close> (src/main.py, lines 22-113).
  The method talks to the file system, to the package manager and to the block-device layer of
  the installer library. None of these is part of the repository, so every such call is a
  parameter of the model (record \<open>env\<close>): it tells, for each call, whether the collaborator
  raises and what it returns. What the method did to the outside world is kept as an ordered
  list of effects, oldest first, so that a run that raises still shows what happened before.
\<close>

subsection \<open>Paths (pathlib)\<close>

text \<open>
  A \<^verbatim>\<open>pathlib.Path\<close> is its anchor and its components. A POSIX path has no root, the root
  \<^verbatim>\<open>/\<close>, or the root \<^verbatim>\<open>//\<close>, which pathlib keeps apart from \<^verbatim>\<open>/\<close>. The components are never
  empty and hold no \<^verbatim>\<open>/\<close>. The method only uses \<^verbatim>\<open>/\<close> with one-component literals and with a
  relative path, \<^verbatim>\<open>relative_to('/')\<close> and \<^verbatim>\<open>str\<close>.
\<close>

datatype anchor = Unrooted | Rooted | DoubleRooted

datatype path = Path (anchor: anchor) (parts: "string list")

definition is_absolute :: "path \<Rightarrow> bool" where
  "is_absolute p = (anchor p \<noteq> Unrooted)"

fun join :: "string \<Rightarrow> string list \<Rightarrow> string" where
  "join sep [] = []"
| "join sep [x] = x"
| "join sep (x # y # ys) = x @ sep @ join sep (y # ys)"

definition str_path :: "path \<Rightarrow> string" where
  "str_path p =
     (case anchor p of
        Rooted \<Rightarrow> ''/'' @ join ''/'' (parts p)
      | DoubleRooted \<Rightarrow> ''//'' @ join ''/'' (parts p)
      | Unrooted \<Rightarrow> if parts p = [] then ''.'' else join ''/'' (parts p))"

text \<open>\<^verbatim>\<open>p / 'name'\<close> for a literal of one component.\<close>

definition slash :: "path \<Rightarrow> string \<Rightarrow> path" where
  "slash p name = Path (anchor p) (parts p @ [name])"

text \<open>\<^verbatim>\<open>p / q\<close> for a path \<open>q\<close>: an absolute right operand replaces the left one.\<close>

definition slash_path :: "path \<Rightarrow> path \<Rightarrow> path" where
  "slash_path p q = (if is_absolute q then q else Path (anchor p) (parts p @ parts q))"

text \<open>\<^verbatim>\<open>str(x)\<close> of an \<^verbatim>\<open>Optional[Path]\<close>, as an f-string renders it.\<close>

definition str_opt_path :: "path option \<Rightarrow> string" where
  "str_opt_path p = (case p of None \<Rightarrow> ''None'' | Some q \<Rightarrow> str_path q)"

subsection \<open>Exceptions, effects and the collaborators\<close>

text \<open>
  \<open>ValueError\<close> and \<open>DiskError\<close> are the two exceptions the method raises itself; \<open>OtherError\<close>
  is any other \<^verbatim>\<open>Exception\<close> that comes out of a collaborator. \<open>Interrupt\<close> is an exception
  that is not an \<^verbatim>\<open>Exception\<close> (\<^verbatim>\<open>KeyboardInterrupt\<close>, \<^verbatim>\<open>SystemExit\<close>): \<^verbatim>\<open>except Exception\<close>
  does not catch it. Each carries the text \<^verbatim>\<open>str(err)\<close> gives.
\<close>

datatype exn = ValueError string | DiskError string | OtherError string | Interrupt string

fun str_exn :: "exn \<Rightarrow> string" where
  "str_exn (ValueError m) = m"
| "str_exn (DiskError m) = m"
| "str_exn (OtherError m) = m"
| "str_exn (Interrupt m) = m"

fun is_exception :: "exn \<Rightarrow> bool" where
  "is_exception (Interrupt m) = False"
| "is_exception e = True"

datatype effect =
    Debug string
  | Info string
  | Strap string
  | Mkdir path
  | Copy path path
  | SysCommand string
  | WriteText path string

text \<open>
  A partition as the method reads it: \<^verbatim>\<open>dev_path\<close>, the property \<^verbatim>\<open>safe_dev_path\<close> (which
  the library lets raise) and \<^verbatim>\<open>mountpoint\<close>.
\<close>

record partition =
  dev_path :: "path option"
  safe_dev_path :: "exn + path"
  mountpoint :: "path option"

text \<open>
  The collaborators. A field of type \<open>exn option\<close> is the outcome of a call made for its
  effect: \<open>None\<close> when it returns, \<open>Some e\<close> when it raises \<open>e\<close>. The field
  \<open>relative_to_root_error\<close> is the exception \<^verbatim>\<open>relative_to('/')\<close> raises for a path that is
  not under \<^verbatim>\<open>/\<close>; its text depends on the Python version.
\<close>

record 'root env =
  has_uefi :: bool
  strap :: "string \<Rightarrow> exn option"
  relative_to_root_error :: "path \<Rightarrow> exn"
  mkdir :: "path \<Rightarrow> exn option"
  copy :: "path \<Rightarrow> path \<Rightarrow> exn option"
  sys_command :: "string \<Rightarrow> exn option"
  write_text :: "path \<Rightarrow> string \<Rightarrow> exn option"
  get_parent_device_path :: "path \<Rightarrow> exn + path"
  get_unique_path_for_device :: "path \<Rightarrow> exn + path option"
  get_kernel_params :: "'root \<Rightarrow> exn + string list"

text \<open>
  The installer object (\<^verbatim>\<open>self.target\<close>, \<^verbatim>\<open>self.kernels\<close>, \<^verbatim>\<open>self.helper_flags\<close>) together
  with the effects performed so far.
\<close>

record state =
  target :: path
  kernels :: "string list"
  helper_flags :: "string \<rightharpoonup> string"
  effects :: "effect list"

subsection \<open>Sequencing with exceptions\<close>

type_synonym 'a act = "state \<Rightarrow> (exn + 'a) \<times> state"

definition ret :: "'a \<Rightarrow> 'a act" where
  "ret x = (\<lambda>s. (Inr x, s))"

definition raise :: "exn \<Rightarrow> 'a act" where
  "raise e = (\<lambda>s. (Inl e, s))"

definition and_then :: "'a act \<Rightarrow> ('a \<Rightarrow> 'b act) \<Rightarrow> 'b act" where
  "and_then m f = (\<lambda>s. case m s of (Inl e, s') \<Rightarrow> (Inl e, s') | (Inr x, s') \<Rightarrow> f x s')"

text \<open>
  \<^verbatim>\<open>try: m except Exception as err: h err\<close>; what \<open>m\<close> did before raising stays done, and
  an exception that is not an \<^verbatim>\<open>Exception\<close> goes through.
\<close>

definition try_except :: "'a act \<Rightarrow> (exn \<Rightarrow> 'a act) \<Rightarrow> 'a act" where
  "try_except m h =
     (\<lambda>s. case m s of
            (Inl e, s') \<Rightarrow> if is_exception e then h e s' else (Inl e, s')
          | (Inr x, s') \<Rightarrow> (Inr x, s'))"

definition perform :: "effect \<Rightarrow> unit act" where
  "perform e = (\<lambda>s. (Inr (), s\<lparr>effects := effects s @ [e]\<rparr>))"

text \<open>Reading an attribute of the installer object, such as \<^verbatim>\<open>self.target\<close>.\<close>

definition gets :: "(state \<Rightarrow> 'a) \<Rightarrow> 'a act" where
  "gets f = (\<lambda>s. (Inr (f s), s))"

text \<open>A call to a collaborator: it raises, or it returns and the effect has happened.\<close>

definition call :: "exn option \<Rightarrow> effect \<Rightarrow> unit act" where
  "call outcome e = (case outcome of Some err \<Rightarrow> raise err | None \<Rightarrow> perform e)"

text \<open>A call made for its value.\<close>

definition ask :: "exn + 'a \<Rightarrow> 'a act" where
  "ask r = (case r of Inl err \<Rightarrow> raise err | Inr x \<Rightarrow> ret x)"

text \<open>\<^verbatim>\<open>for x in xs: body x\<close>\<close>

fun for_each :: "'a list \<Rightarrow> ('a \<Rightarrow> unit act) \<Rightarrow> unit act" where
  "for_each [] body = ret ()"
| "for_each (x # xs) body = and_then (body x) (\<lambda>_. for_each xs body)"

subsection \<open>The method\<close>

definition limine_path :: "path \<Rightarrow> path" where
  "limine_path tgt = slash (slash (slash tgt ''usr'') ''share'') ''limine''"

text \<open>
  \<^verbatim>\<open>mountpoint.relative_to('/')\<close>: the path without its root when that root is \<^verbatim>\<open>/\<close>; for a
  relative path and for one rooted at \<^verbatim>\<open>//\<close> the library's ValueError.
\<close>

definition relative_to_root :: "'root env \<Rightarrow> path \<Rightarrow> path act" where
  "relative_to_root env p =
     (if anchor p = Rooted then ret (Path Unrooted (parts p))
      else raise (relative_to_root_error env p))"

definition efi_dir_path :: "path \<Rightarrow> path \<Rightarrow> path" where
  "efi_dir_path tgt rel = slash (slash (slash_path tgt rel) ''EFI'') ''BOOT''"

text \<open>Lines 38-55, the UEFI branch; its value is \<^verbatim>\<open>hook_command\<close>.\<close>

definition uefi_branch :: "'root env \<Rightarrow> partition option \<Rightarrow> string act" where
  "uefi_branch env efi_partition =
     (case efi_partition of
        None \<Rightarrow> raise (ValueError ''Could not detect efi partition'')
      | Some efi \<Rightarrow>
         (case mountpoint efi of
            None \<Rightarrow> raise (ValueError ''EFI partition is not mounted'')
          | Some mp \<Rightarrow>
              and_then (perform (Info (''Limine EFI partition: '' @ str_opt_path (dev_path efi)))) (\<lambda>_.
              and_then
                (try_except
                   (and_then (gets target) (\<lambda>tgt.
                    and_then (relative_to_root env mp) (\<lambda>rel.
                    and_then (call (mkdir env (efi_dir_path tgt rel))
                                   (Mkdir (efi_dir_path tgt rel))) (\<lambda>_.
                    for_each [''BOOTIA32.EFI'', ''BOOTX64.EFI'']
                      (\<lambda>file. call (copy env (slash (limine_path tgt) file) (efi_dir_path tgt rel))
                                    (Copy (slash (limine_path tgt) file) (efi_dir_path tgt rel)))))))
                   (\<lambda>err. and_then (gets target) (\<lambda>tgt.
                      raise (DiskError (''Failed to install Limine in '' @ str_path tgt
                                        @ str_path mp @ '': '' @ str_exn err))))) (\<lambda>_.
              ret (''/usr/bin/cp /usr/share/limine/BOOTIA32.EFI '' @ str_path mp @ ''/EFI/BOOT/''
                   @ '' && /usr/bin/cp /usr/share/limine/BOOTX64.EFI '' @ str_path mp
                   @ ''/EFI/BOOT/'')))))"

text \<open>Lines 57-72, the BIOS branch; its value is \<^verbatim>\<open>hook_command\<close>.\<close>

definition bios_branch :: "'root env \<Rightarrow> partition \<Rightarrow> string act" where
  "bios_branch env boot_partition =
     and_then (ask (safe_dev_path boot_partition)) (\<lambda>boot_dev.
     and_then (ask (get_parent_device_path env boot_dev)) (\<lambda>parent.
     and_then (ask (get_unique_path_for_device env parent)) (\<lambda>unique_path.
     (let parent_dev_path = (case unique_path of Some u \<Rightarrow> u | None \<Rightarrow> parent) in
     and_then
       (try_except
          (and_then (gets target) (\<lambda>tgt.
           and_then (call (copy env (slash (limine_path tgt) ''limine-bios.sys'')
                                    (slash tgt ''boot''))
                          (Copy (slash (limine_path tgt) ''limine-bios.sys'')
                                (slash tgt ''boot''))) (\<lambda>_.
           call (sys_command env (''/usr/bin/arch-chroot '' @ str_path tgt
                                  @ '' limine bios-install '' @ str_path parent_dev_path))
                (SysCommand (''/usr/bin/arch-chroot '' @ str_path tgt
                             @ '' limine bios-install '' @ str_path parent_dev_path)))))
          (\<lambda>err. raise (DiskError (''Failed to install Limine on '' @ str_path parent_dev_path
                                    @ '': '' @ str_exn err)))) (\<lambda>_.
     ret (''/usr/bin/limine bios-install '' @ str_path parent_dev_path
          @ '' && /usr/bin/cp /usr/share/limine/limine-bios.sys /boot/''))))))"

text \<open>Lines 74-84, the text of the hook file.\<close>

definition hook_contents :: "string \<Rightarrow> string" where
  "hook_contents hook_command =
     ''[Trigger]\<newline>'' @
     ''Operation = Install\<newline>'' @
     ''Operation = Upgrade\<newline>'' @
     ''Type = Package\<newline>'' @
     ''Target = limine\<newline>'' @
     ''\<newline>'' @
     ''[Action]\<newline>'' @
     ''Description = Deploying Limine after upgrade...\<newline>'' @
     ''When = PostTransaction\<newline>'' @
     ''Exec = /bin/sh -c '' @ [CHR 0x22] @ hook_command @ [CHR 0x22] @ ''\<newline>''"

definition hooks_dir :: "path \<Rightarrow> path" where
  "hooks_dir tgt = slash (slash (slash tgt ''etc'') ''pacman.d'') ''hooks''"

definition hook_path :: "path \<Rightarrow> path" where
  "hook_path tgt = slash (hooks_dir tgt) ''99-limine.hook''"

text \<open>Lines 100-105, the list \<^verbatim>\<open>entry\<close> of one pass of the inner loop.\<close>

definition entry :: "string \<Rightarrow> string \<Rightarrow> string \<Rightarrow> string list" where
  "entry kernel_params kernel' variant =
     [''PROTOCOL=linux'',
      ''KERNEL_PATH=boot:///vmlinuz-'' @ kernel',
      ''MODULE_PATH=boot:///initramfs-'' @ kernel' @ variant @ ''.img'',
      ''CMDLINE='' @ kernel_params]"

text \<open>Lines 107-108: what one pass of the inner loop appends to \<^verbatim>\<open>config_contents\<close>.\<close>

definition stanza :: "string \<Rightarrow> string \<Rightarrow> string \<Rightarrow> string" where
  "stanza kernel_params kernel' variant =
     (''\<newline>:Polaris Linux '' @ variant @ ''\<newline>'')
       @ (join ''\<newline>'' (map (\<lambda>it. ''    '' @ it) (entry kernel_params kernel' variant))
          @ ''\<newline>'')"

text \<open>Lines 96-108: \<^verbatim>\<open>config_contents\<close> after the two nested loops.\<close>

definition config_contents :: "string \<Rightarrow> string list \<Rightarrow> string" where
  "config_contents kernel_params ks =
     foldl (\<lambda>cc kernel'.
        foldl (\<lambda>cc variant. cc @ stanza kernel_params kernel' variant) cc ['''', ''fallback''])
       ''TIMEOUT=5\<newline>'' ks"

definition config_path :: "path \<Rightarrow> path" where
  "config_path tgt = slash (slash tgt ''boot'') ''limine.cfg''"

text \<open>Lines 92-95: the kernel command line.\<close>

definition kernel_params :: "string list \<Rightarrow> string" where
  "kernel_params kernel_params_orig = join '' '' (kernel_params_orig @ [''quiet''] @ [''splash''])"

text \<open>Lines 74-90: the hook file.\<close>

definition write_hook :: "'root env \<Rightarrow> string \<Rightarrow> unit act" where
  "write_hook env hook_command =
     and_then (gets target) (\<lambda>tgt.
     and_then (call (mkdir env (hooks_dir tgt)) (Mkdir (hooks_dir tgt))) (\<lambda>_.
     call (write_text env (hook_path tgt) (hook_contents hook_command))
          (WriteText (hook_path tgt) (hook_contents hook_command))))"

text \<open>Lines 92-111: the boot-menu file.\<close>

definition write_config :: "'root env \<Rightarrow> 'root \<Rightarrow> unit act" where
  "write_config env root =
     and_then (ask (get_kernel_params env root)) (\<lambda>kernel_params_orig.
     and_then (gets kernels) (\<lambda>ks.
     and_then (gets target) (\<lambda>tgt.
     call (write_text env (config_path tgt) (config_contents (kernel_params kernel_params_orig) ks))
          (WriteText (config_path tgt) (config_contents (kernel_params kernel_params_orig) ks)))))"

text \<open>The whole method, lines 28-113.\<close>

definition add_limine_bootloader ::
  "'root env \<Rightarrow> partition \<Rightarrow> partition option \<Rightarrow> 'root \<Rightarrow> unit act" where
  "add_limine_bootloader env boot_partition efi_partition root =
     and_then (perform (Debug ''Installing limine bootloader'')) (\<lambda>_.
     and_then (call (strap env ''limine'') (Strap ''limine'')) (\<lambda>_.
     and_then (perform (Info (''Limine boot partition: ''
                               @ str_opt_path (dev_path boot_partition)))) (\<lambda>_.
     and_then (if has_uefi env then uefi_branch env efi_partition
               else bios_branch env boot_partition) (\<lambda>hook_command.
     and_then (write_hook env hook_command) (\<lambda>_.
     and_then (write_config env root) (\<lambda>_ s.
       (Inr (), s\<lparr>helper_flags := (helper_flags s)(''bootloader'' \<mapsto> ''limine'')\<rparr>)))))))"

subsection \<open>Reading a run\<close>

text \<open>The effects of a run: what \<open>s'\<close> has more than \<open>s\<close>.\<close>

definition performed :: "state \<Rightarrow> state \<Rightarrow> effect list" where
  "performed s s' = drop (length (effects s)) (effects s')"

text \<open>
  Which effects change the target file system. \<^verbatim>\<open>pacman.strap\<close> installs a package into the
  target root, \<^verbatim>\<open>SysCommand\<close> runs a command inside it; logging changes nothing.
\<close>

fun touches_target :: "effect \<Rightarrow> bool" where
  "touches_target (Debug m) = False"
| "touches_target (Info m) = False"
| "touches_target (Strap pkg) = True"
| "touches_target (Mkdir p) = True"
| "touches_target (Copy src dst) = True"
| "touches_target (SysCommand c) = True"
| "touches_target (WriteText p c) = True"

fun is_disk_error :: "exn \<Rightarrow> bool" where
  "is_disk_error (DiskError m) = True"
| "is_disk_error e = False"

text \<open>The copies made and the commands run, in order.\<close>

fun copies :: "effect list \<Rightarrow> (path \<times> path) list" where
  "copies [] = []"
| "copies (Copy src dst # es) = (src, dst) # copies es"
| "copies (e # es) = copies es"

fun sys_commands :: "effect list \<Rightarrow> string list" where
  "sys_commands [] = []"
| "sys_commands (SysCommand c # es) = c # sys_commands es"
| "sys_commands (e # es) = sys_commands es"

text \<open>An action that does nothing to the state but add effects.\<close>

definition only_effects :: "'a act \<Rightarrow> bool" where
  "only_effects m = (\<forall>s r s'. m s = (r, s') \<longrightarrow> (\<exists>es. s' = s\<lparr>effects := effects s @ es\<rparr>))"

text \<open>An action that leaves \<^verbatim>\<open>helper_flags\<close> alone whenever it raises.\<close>

definition raises_keep :: "'a act \<Rightarrow> bool" where
  "raises_keep m = (\<forall>s e s'. m s = (Inl e, s') \<longrightarrow> helper_flags s' = helper_flags s)"

subsection \<open>Reading the boot-menu file\<close>

text \<open>The content a path has after a list of effects; the last write wins.\<close>

fun written :: "path \<Rightarrow> effect list \<Rightarrow> string option" where
  "written p [] = None"
| "written p (WriteText q c # es) =
     (case written p es of Some later \<Rightarrow> Some later | None \<Rightarrow> if q = p then Some c else None)"
| "written p (e # es) = written p es"

text \<open>The boot-menu file a run has left at \<^verbatim>\<open>boot/limine.cfg\<close> under the target.\<close>

definition boot_menu :: "state \<Rightarrow> state \<Rightarrow> string option" where
  "boot_menu s s' = written (config_path (target s)) (performed s s')"

text \<open>Splitting a list at a separator, as \<^verbatim>\<open>str.split\<close> does; \<open>acc\<close> is the piece being read.\<close>

fun splitter :: "'a \<Rightarrow> 'a list \<Rightarrow> 'a list \<Rightarrow> 'a list list" where
  "splitter c acc [] = [rev acc]"
| "splitter c acc (x # xs) =
     (if x = c then rev acc # splitter c [] xs else splitter c (x # acc) xs)"

definition split_on :: "'a \<Rightarrow> 'a list \<Rightarrow> 'a list list" where
  "split_on c xs = splitter c [] xs"

definition file_lines :: "string \<Rightarrow> string list" where
  "file_lines contents = split_on CHR ''\<newline>'' contents"

text \<open>A kernel identifier or a kernel parameter is one line of text.\<close>

definition single_line :: "string \<Rightarrow> bool" where
  "single_line str = (CHR ''\<newline>'' \<notin> set str)"

text \<open>
  The file format (spec, section 6): a line starting with \<^verbatim>\<open>:\<close> is the label of a stanza and
  the indented lines under it are its entries; a line \<^verbatim>\<open>TIMEOUT=...\<close> sets the timeout.
\<close>

fun is_label :: "string \<Rightarrow> bool" where
  "is_label [] = False"
| "is_label (x # xs) = (x = CHR '':'')"

fun is_indented :: "string \<Rightarrow> bool" where
  "is_indented [] = False"
| "is_indented (x # xs) = (x = CHR '' '')"

definition is_timeout :: "string \<Rightarrow> bool" where
  "is_timeout l = (take 8 l = ''TIMEOUT='')"

function stanzas :: "string list \<Rightarrow> string list list" where
  "stanzas [] = []"
| "stanzas (l # ls) =
     (if is_label l then (l # takeWhile is_indented ls) # stanzas (dropWhile is_indented ls)
      else stanzas ls)"
  by pat_completeness auto
termination
  by (relation "measure length") (simp_all add: le_imp_less_Suc length_dropWhile_le)

text \<open>The positions at which two stanzas of the same length differ.\<close>

definition differing_lines :: "string list \<Rightarrow> string list \<Rightarrow> nat list" where
  "differing_lines a b = map fst (filter (\<lambda>(i, x, y). x \<noteq> y) (zip [0..<length a] (zip a b)))"

text \<open>The lines one pass of the inner loop adds after a blank line: the label and \<^verbatim>\<open>entry\<close>.\<close>

definition stanza_lines :: "string \<Rightarrow> string \<Rightarrow> string \<Rightarrow> string list" where
  "stanza_lines kp k v = ('':Polaris Linux '' @ v) # map (\<lambda>it. ''    '' @ it) (entry kp k v)"

subsection \<open>Replaying the upgrade hook\<close>

text \<open>
  What a command puts where, seen from inside the installed system: a file copied into a
  directory, or the boot code written to a device by \<^verbatim>\<open>limine bios-install\<close>.
\<close>

datatype placement = CopyInto path path | BiosInstall string

text \<open>
  A path word as the system resolves it: it starts at the root when it starts with a slash,
  and slashes in a row count as one.
\<close>

definition parse_path :: "string \<Rightarrow> path" where
  "parse_path w =
     Path (if take 1 w = ''/'' then Rooted else Unrooted)
          (filter (\<lambda>part. part \<noteq> []) (split_on CHR ''/'' w))"

text \<open>
  One simple command, given as its words. \<^verbatim>\<open>limine\<close> found on the search path and
  \<^verbatim>\<open>/usr/bin/limine\<close> are the same program, the one the \<^verbatim>\<open>limine\<close> package installs.
\<close>

fun run_words :: "string list \<Rightarrow> placement option" where
  "run_words [prog, a, b] =
     (if prog = ''/usr/bin/cp'' then Some (CopyInto (parse_path a) (parse_path b))
      else if (prog = ''/usr/bin/limine'' \<or> prog = ''limine'') \<and> a = ''bios-install''
        then Some (BiosInstall b)
      else None)"
| "run_words ws = None"

text \<open>
  The shell on a command line of plain words: words are separated by blanks and simple
  commands by \<^verbatim>\<open>&&\<close>; \<open>None\<close> stands for a command that is not understood.
\<close>

definition replay :: "string \<Rightarrow> placement option list" where
  "replay command = map run_words (split_on ''&&'' (split_on CHR '' '' command))"

fun strip_prefix :: "'a list \<Rightarrow> 'a list \<Rightarrow> 'a list option" where
  "strip_prefix [] ys = Some ys"
| "strip_prefix (x # xs) [] = None"
| "strip_prefix (x # xs) (y # ys) = (if x = y then strip_prefix xs ys else None)"

text \<open>A path under the target, as the installed system will see it.\<close>

definition inside :: "path \<Rightarrow> path \<Rightarrow> path option" where
  "inside tgt p =
     (if anchor p = anchor tgt
      then map_option (Path Rooted) (strip_prefix (parts tgt) (parts p)) else None)"

text \<open>
  What the effects of the installation placed: its copies, and the commands it ran inside the
  target through \<^verbatim>\<open>arch-chroot\<close>.
\<close>

fun placed :: "path \<Rightarrow> effect list \<Rightarrow> placement option list" where
  "placed tgt [] = []"
| "placed tgt (Copy src dst # es) =
     (case (inside tgt src, inside tgt dst) of
        (Some a, Some b) \<Rightarrow> Some (CopyInto a b)
      | _ \<Rightarrow> None) # placed tgt es"
| "placed tgt (SysCommand c # es) =
     (case strip_prefix (''/usr/bin/arch-chroot '' @ str_path tgt @ '' '') c of
        Some inner \<Rightarrow> run_words (split_on CHR '' '' inner)
      | None \<Rightarrow> None) # placed tgt es"
| "placed tgt (e # es) = placed tgt es"

text \<open>The command of the \<^verbatim>\<open>Exec\<close> line of a hook file, without its quotes.\<close>

definition unquote :: "string \<Rightarrow> string option" where
  "unquote str =
     (if 2 \<le> length str \<and> hd str = CHR 0x22 \<and> last str = CHR 0x22
      then Some (butlast (tl str)) else None)"

definition hook_exec :: "string \<Rightarrow> string option" where
  "hook_exec text =
     (case List.map_filter (strip_prefix ''Exec = /bin/sh -c '') (file_lines text) of
        [quoted] \<Rightarrow> unquote quoted
      | _ \<Rightarrow> None)"

text \<open>The hook file a run has left under the target.\<close>

definition hook_file :: "state \<Rightarrow> state \<Rightarrow> string option" where
  "hook_file s s' = written (hook_path (target s)) (performed s s')"

text \<open>
  A path all of whose components are made of characters that mean nothing special to the
  shell, such as \<^verbatim>\<open>/boot\<close>, \<^verbatim>\<open>/efi\<close> or \<^verbatim>\<open>/dev/disk/by-id/ata-DISK\<close>.
\<close>

definition plain_char :: "char \<Rightarrow> bool" where
  "plain_char c =
     (c \<in> set ''abcdefghijklmnopqrstuvwxyzABCDEFGHIJKLMNOPQRSTUVWXYZ0123456789-_.+:,@%='')"

definition plain_path :: "path \<Rightarrow> bool" where
  "plain_path p = list_all (\<lambda>part. part \<noteq> [] \<and> list_all plain_char part) (parts p)"

subsection \<open>A concrete installation\<close>

text \<open>
  Every collaborator returns; the boot partition is \<^verbatim>\<open>/dev/sda1\<close> mounted at \<^verbatim>\<open>/boot\<close>, the
  target is \<^verbatim>\<open>/mnt\<close> and the kernel list is the one \<^verbatim>\<open>perform_installation\<close> passes (line 282).
\<close>

definition demo_env :: "bool \<Rightarrow> unit env" where
  "demo_env uefi =
     \<lparr> has_uefi = uefi,
       strap = (\<lambda>pkg. None),
       relative_to_root_error = (\<lambda>p. ValueError (str_path p @ '' is not in the subpath of /'')),
       mkdir = (\<lambda>p. None),
       copy = (\<lambda>src dst. None),
       sys_command = (\<lambda>c. None),
       write_text = (\<lambda>p c. None),
       get_parent_device_path = (\<lambda>p. Inr (Path Rooted [''dev'', ''sda''])),
       get_unique_path_for_device =
         (\<lambda>p. Inr (Some (Path Rooted [''dev'', ''disk'', ''by-id'', ''ata-DISK'']))),
       get_kernel_params = (\<lambda>r. Inr [''root=UUID=0a1b'', ''rw'']) \<rparr>"

definition demo_state :: state where
  "demo_state = \<lparr> target = Path Rooted [''mnt''], kernels = [''linux-zen''],
                  helper_flags = Map.empty, effects = [] \<rparr>"

definition demo_boot :: partition where
  "demo_boot = \<lparr> dev_path = Some (Path Rooted [''dev'', ''sda1'']),
                 safe_dev_path = Inr (Path Rooted [''dev'', ''sda1'']),
                 mountpoint = Some (Path Rooted [''boot'']) \<rparr>"

definition demo_uefi_run :: "(exn + unit) \<times> state" where
  "demo_uefi_run = add_limine_bootloader (demo_env True) demo_boot (Some demo_boot) () demo_state"

definition demo_bios_run :: "(exn + unit) \<times> state" where
  "demo_bios_run = add_limine_bootloader (demo_env False) demo_boot None () demo_state"

text \<open>The same machine in BIOS mode with a full disk: every copy raises.\<close>

definition full_disk_env :: "unit env" where
  "full_disk_env = (demo_env False)\<lparr>copy := (\<lambda>src dst. Some (OtherError ''No space left on device''))\<rparr>"

text \<open>The same machine in BIOS mode, interrupted from the keyboard while the command runs.\<close>

definition interrupted_env :: "unit env" where
  "interrupted_env = (demo_env False)\<lparr>sys_command := (\<lambda>c. Some (Interrupt ''''))\<rparr>"

text \<open>The same machine in BIOS mode when the parent device has no unique alias path.\<close>

definition no_alias_env :: "unit env" where
  "no_alias_env = (demo_env False)\<lparr>get_unique_path_for_device := (\<lambda>p. Inr None)\<rparr>"

definition no_alias_run :: "(exn + unit) \<times> state" where
  "no_alias_run = add_limine_bootloader no_alias_env demo_boot None () demo_state"

text \<open>The same machine in UEFI mode with the EFI partition mounted at \<^verbatim>\<open>/my efi\<close>.\<close>

definition blank_efi :: partition where
  "blank_efi = demo_boot\<lparr>mountpoint := Some (Path Rooted [''my efi''])\<rparr>"

definition blank_efi_run :: "(exn + unit) \<times> state" where
  "blank_efi_run =
     add_limine_bootloader (demo_env True) demo_boot (Some blank_efi) () demo_state"

text \<open>An EFI partition whose mount point was given as \<^verbatim>\<open>//efi\<close>.\<close>

definition double_slash_efi :: partition where
  "double_slash_efi = demo_boot\<lparr>mountpoint := Some (Path DoubleRooted [''efi''])\<rparr>"

text \<open>The same installation with two kernels.\<close>

definition two_kernel_state :: state where
  "two_kernel_state = demo_state\<lparr>kernels := [''linux'', ''linux-lts'']\<rparr>"

definition two_kernel_run :: "(exn + unit) \<times> state" where
  "two_kernel_run =
     add_limine_bootloader (demo_env False) demo_boot (Some demo_boot) () two_kernel_state"

section \<open>Properties\<close>

lemmas act_defs = and_then_def ret_def raise_def try_except_def perform_def call_def ask_def
  gets_def

lemmas path_defs = limine_path_def efi_dir_path_def hooks_dir_def hook_path_def config_path_def
  slash_def slash_path_def str_path_def str_opt_path_def is_absolute_def

lemmas demo_defs = demo_env_def demo_state_def demo_boot_def

subsection \<open>Actions only add effects\<close>

lemma only_effectsD:
  "only_effects m \<Longrightarrow> m s = (r, s') \<Longrightarrow>
     target s' = target s \<and> kernels s' = kernels s \<and> helper_flags s' = helper_flags s"
  unfolding only_effects_def by fastforce

lemma only_effects_basic [simp]:
  "only_effects (ret x)" "only_effects (raise e)" "only_effects (perform f)"
  "only_effects (call outcome f)" "only_effects (ask v)" "only_effects (gets g)"
  unfolding only_effects_def
  by (auto simp: act_defs split: option.splits sum.splits intro: exI [of _ "[]"])

lemma only_effects_and_then [simp]:
  assumes "only_effects m" and "\<And>x. only_effects (f x)"
  shows "only_effects (and_then m f)"
  unfolding only_effects_def
proof (intro allI impI)
  fix s r s' assume run: "and_then m f s = (r, s')"
  show "\<exists>es. s' = s\<lparr>effects := effects s @ es\<rparr>"
  proof (cases "m s")
    case (Pair r1 s1)
    from assms(1) Pair obtain es1 where s1: "s1 = s\<lparr>effects := effects s @ es1\<rparr>"
      unfolding only_effects_def by blast
    show ?thesis
    proof (cases r1)
      case (Inl e)
      with run Pair s1 show ?thesis by (auto simp: and_then_def)
    next
      case (Inr x)
      with run Pair have "f x s1 = (r, s')" by (simp add: and_then_def)
      with assms(2) obtain es2 where "s' = s1\<lparr>effects := effects s1 @ es2\<rparr>"
        unfolding only_effects_def by blast
      with s1 have "s' = s\<lparr>effects := effects s @ (es1 @ es2)\<rparr>" by simp
      then show ?thesis by blast
    qed
  qed
qed

lemma only_effects_try_except [simp]:
  assumes "only_effects m" and "\<And>e. only_effects (h e)"
  shows "only_effects (try_except m h)"
  unfolding only_effects_def
proof (intro allI impI)
  fix s r s' assume run: "try_except m h s = (r, s')"
  show "\<exists>es. s' = s\<lparr>effects := effects s @ es\<rparr>"
  proof (cases "m s")
    case (Pair r1 s1)
    from assms(1) Pair obtain es1 where s1: "s1 = s\<lparr>effects := effects s @ es1\<rparr>"
      unfolding only_effects_def by blast
    show ?thesis
    proof (cases r1)
      case (Inr x)
      with run Pair s1 show ?thesis by (auto simp: try_except_def)
    next
      case (Inl e)
      show ?thesis
      proof (cases "is_exception e")
        case False
        with run Pair Inl s1 show ?thesis by (auto simp: try_except_def)
      next
        case True
        with run Pair Inl have "h e s1 = (r, s')" by (simp add: try_except_def)
        with assms(2) obtain es2 where "s' = s1\<lparr>effects := effects s1 @ es2\<rparr>"
          unfolding only_effects_def by blast
        with s1 have "s' = s\<lparr>effects := effects s @ (es1 @ es2)\<rparr>" by simp
        then show ?thesis by blast
      qed
    qed
  qed
qed

lemma only_effects_for_each [simp]:
  "(\<And>x. only_effects (body x)) \<Longrightarrow> only_effects (for_each xs body)"
  by (induction xs) simp_all

lemma only_effects_uefi_branch [simp]: "only_effects (uefi_branch env efi_partition)"
  unfolding uefi_branch_def relative_to_root_def
  by (simp split: option.splits)

lemma only_effects_bios_branch [simp]: "only_effects (bios_branch env boot_partition)"
  unfolding bios_branch_def by (simp add: Let_def)

lemma only_effects_write_hook [simp]: "only_effects (write_hook env hook_command)"
  unfolding write_hook_def by simp

lemma only_effects_write_config [simp]: "only_effects (write_config env root)"
  unfolding write_config_def by simp


lemma and_then_cases:
  assumes "and_then m f s = (r, s')"
  obtains (raised) e where "m s = (Inl e, s')" and "r = Inl e"
        | (returned) x s1 where "m s = (Inr x, s1)" and "f x s1 = (r, s')"
  using assms by (auto simp: and_then_def split: prod.splits sum.splits)

lemma uefi_branch_raises:
  assumes "uefi_branch env efi_partition s = (Inl err, s')"
  shows "(efi_partition = None \<and> err = ValueError ''Could not detect efi partition'')
   \<or> ((\<exists>e. efi_partition = Some e \<and> mountpoint e = None)
        \<and> err = ValueError ''EFI partition is not mounted'')
   \<or> (\<exists>e mp cause. efi_partition = Some e \<and> mountpoint e = Some mp
        \<and> ((anchor mp \<noteq> Rooted \<and> cause = relative_to_root_error env mp)
           \<or> mkdir env (efi_dir_path (target s) (Path Unrooted (parts mp))) = Some cause
           \<or> copy env (slash (limine_path (target s)) ''BOOTIA32.EFI'')
                       (efi_dir_path (target s) (Path Unrooted (parts mp))) = Some cause
           \<or> copy env (slash (limine_path (target s)) ''BOOTX64.EFI'')
                       (efi_dir_path (target s) (Path Unrooted (parts mp))) = Some cause)
        \<and> err = (if is_exception cause
                   then DiskError (''Failed to install Limine in '' @ str_path (target s)
                          @ str_path mp @ '': '' @ str_exn cause)
                   else cause))"
  using assms unfolding uefi_branch_def relative_to_root_def
  by (auto simp: act_defs split: option.splits sum.splits prod.splits if_splits)

lemma bios_branch_raises:
  assumes "bios_branch env boot_partition s = (Inl err, s')"
  shows "(\<exists>boot_dev parent unique cause.
          safe_dev_path boot_partition = Inr boot_dev
        \<and> get_parent_device_path env boot_dev = Inr parent
        \<and> get_unique_path_for_device env parent = Inr unique
        \<and> (copy env (slash (limine_path (target s)) ''limine-bios.sys'')
                      (slash (target s) ''boot'') = Some cause
           \<or> sys_command env (''/usr/bin/arch-chroot '' @ str_path (target s)
                 @ '' limine bios-install ''
                 @ str_path (case unique of Some a \<Rightarrow> a | None \<Rightarrow> parent)) = Some cause)
        \<and> err = (if is_exception cause
                   then DiskError (''Failed to install Limine on ''
                          @ str_path (case unique of Some a \<Rightarrow> a | None \<Rightarrow> parent)
                          @ '': '' @ str_exn cause)
                   else cause))
   \<or> safe_dev_path boot_partition = Inl err
   \<or> (\<exists>p. get_parent_device_path env p = Inl err)
   \<or> (\<exists>p. get_unique_path_for_device env p = Inl err)"
  using assms unfolding bios_branch_def
  by (auto simp: act_defs Let_def split: option.splits sum.splits prod.splits if_splits)

lemma write_hook_raises:
  assumes "write_hook env hook_command s = (Inl err, s')"
  shows "mkdir env (hooks_dir (target s)) = Some err
       \<or> write_text env (hook_path (target s)) (hook_contents hook_command) = Some err"
  using assms unfolding write_hook_def
  by (auto simp: act_defs split: option.splits sum.splits prod.splits if_splits)

lemma write_config_raises:
  assumes "write_config env root s = (Inl err, s')"
  shows "get_kernel_params env root = Inl err
       \<or> (\<exists>c. write_text env (config_path (target s)) c = Some err)"
  using assms unfolding write_config_def
  by (auto simp: act_defs split: option.splits sum.splits prod.splits if_splits)


lemma raises_keep_only_effects: "only_effects m \<Longrightarrow> raises_keep m"
  unfolding raises_keep_def by (blast dest: only_effectsD)

lemma raises_keep_and_then:
  assumes "only_effects m" and "\<And>x. raises_keep (f x)"
  shows "raises_keep (and_then m f)"
  unfolding raises_keep_def
proof (intro allI impI)
  fix s e s' assume "and_then m f s = (Inl e, s')"
  then show "helper_flags s' = helper_flags s"
  proof (cases rule: and_then_cases)
    case (raised e')
    with assms(1) show ?thesis by (blast dest: only_effectsD)
  next
    case (returned x s1)
    from assms(1) returned(1) have "helper_flags s1 = helper_flags s"
      by (blast dest: only_effectsD)
    moreover from assms(2) returned(2) have "helper_flags s' = helper_flags s1"
      unfolding raises_keep_def by blast
    ultimately show ?thesis by simp
  qed
qed

lemma raises_keep_returns: "raises_keep (\<lambda>s. (Inr x, g s))"
  unfolding raises_keep_def by simp

lemma run_raises_keeps_flags:
  assumes "add_limine_bootloader env boot_partition efi_partition root s = (Inl err, s')"
  shows "helper_flags s' = helper_flags s"
proof -
  have "raises_keep (add_limine_bootloader env boot_partition efi_partition root)"
    unfolding add_limine_bootloader_def
    by (intro raises_keep_and_then raises_keep_returns) simp_all
  with assms show ?thesis unfolding raises_keep_def by blast
qed

lemma and_then_perform:
  "and_then (perform e) f s = f () (s\<lparr>effects := effects s @ [e]\<rparr>)"
  by (simp add: and_then_def perform_def)

lemma and_then_call:
  "and_then (call outcome e) f s =
     (case outcome of Some err \<Rightarrow> (Inl err, s) | None \<Rightarrow> f () (s\<lparr>effects := effects s @ [e]\<rparr>))"
  by (simp add: and_then_def perform_def call_def raise_def split: option.splits)

subsection \<open>What a successful run has done\<close>

lemma run_uefi_success:
  assumes "has_uefi env"
      and "add_limine_bootloader env boot_partition efi_partition root s = (Inr u, s')"
  shows "\<exists>e mp ps. efi_partition = Some e \<and> mountpoint e = Some mp \<and> anchor mp = Rooted
           \<and> get_kernel_params env root = Inr ps
           \<and> s' = s\<lparr>helper_flags := (helper_flags s)(''bootloader'' \<mapsto> ''limine''),
                    effects := effects s @
                      [Debug ''Installing limine bootloader'', Strap ''limine'',
                       Info (''Limine boot partition: '' @ str_opt_path (dev_path boot_partition)),
                       Info (''Limine EFI partition: '' @ str_opt_path (dev_path e)),
                       Mkdir (efi_dir_path (target s) (Path Unrooted (parts mp))),
                       Copy (slash (limine_path (target s)) ''BOOTIA32.EFI'')
                            (efi_dir_path (target s) (Path Unrooted (parts mp))),
                       Copy (slash (limine_path (target s)) ''BOOTX64.EFI'')
                            (efi_dir_path (target s) (Path Unrooted (parts mp))),
                       Mkdir (hooks_dir (target s)),
                       WriteText (hook_path (target s))
                         (hook_contents (''/usr/bin/cp /usr/share/limine/BOOTIA32.EFI ''
                            @ str_path mp @ ''/EFI/BOOT/''
                            @ '' && /usr/bin/cp /usr/share/limine/BOOTX64.EFI ''
                            @ str_path mp @ ''/EFI/BOOT/'')),
                       WriteText (config_path (target s))
                         (config_contents (kernel_params ps) (kernels s))]\<rparr>"
  using assms unfolding add_limine_bootloader_def uefi_branch_def relative_to_root_def
    write_hook_def write_config_def
  by (auto simp: act_defs split: option.splits sum.splits prod.splits if_splits)

lemma run_bios_success:
  assumes "\<not> has_uefi env"
      and "add_limine_bootloader env boot_partition efi_partition root s = (Inr u, s')"
  shows "\<exists>boot_dev parent unique ps.
           safe_dev_path boot_partition = Inr boot_dev
           \<and> get_parent_device_path env boot_dev = Inr parent
           \<and> get_unique_path_for_device env parent = Inr unique
           \<and> get_kernel_params env root = Inr ps
           \<and> s' = s\<lparr>helper_flags := (helper_flags s)(''bootloader'' \<mapsto> ''limine''),
                    effects := effects s @
                      [Debug ''Installing limine bootloader'', Strap ''limine'',
                       Info (''Limine boot partition: '' @ str_opt_path (dev_path boot_partition)),
                       Copy (slash (limine_path (target s)) ''limine-bios.sys'')
                            (slash (target s) ''boot''),
                       SysCommand (''/usr/bin/arch-chroot '' @ str_path (target s)
                          @ '' limine bios-install ''
                          @ str_path (case unique of Some a \<Rightarrow> a | None \<Rightarrow> parent)),
                       Mkdir (hooks_dir (target s)),
                       WriteText (hook_path (target s))
                         (hook_contents (''/usr/bin/limine bios-install ''
                            @ str_path (case unique of Some a \<Rightarrow> a | None \<Rightarrow> parent)
                            @ '' && /usr/bin/cp /usr/share/limine/limine-bios.sys /boot/'')),
                       WriteText (config_path (target s))
                         (config_contents (kernel_params ps) (kernels s))]\<rparr>"
  using assms unfolding add_limine_bootloader_def bios_branch_def write_hook_def write_config_def
  by (auto simp: act_defs Let_def split: option.splits sum.splits prod.splits if_splits)

text \<open>A BIOS run whose collaborators return.\<close>

lemma bios_run_forward:
  assumes "\<not> has_uefi env"
      and "add_limine_bootloader env boot_partition efi_partition root s = (r, s')"
      and "strap env ''limine'' = None"
      and "safe_dev_path boot_partition = Inr boot_dev"
      and "get_parent_device_path env boot_dev = Inr parent"
      and "get_unique_path_for_device env parent = Inr unique"
      and "copy env (slash (limine_path (target s)) ''limine-bios.sys'')
                    (slash (target s) ''boot'') = None"
      and "sys_command env (''/usr/bin/arch-chroot '' @ str_path (target s)
             @ '' limine bios-install ''
             @ str_path (case unique of Some alias \<Rightarrow> alias | None \<Rightarrow> parent)) = None"
  shows "copies (performed s s') =
           [(slash (limine_path (target s)) ''limine-bios.sys'', slash (target s) ''boot'')]
       \<and> sys_commands (performed s s') =
           [''/usr/bin/arch-chroot '' @ str_path (target s) @ '' limine bios-install ''
            @ str_path (case unique of Some alias \<Rightarrow> alias | None \<Rightarrow> parent)]
       \<and> (mkdir env (hooks_dir (target s)) = None
          \<longrightarrow> write_text env (hook_path (target s))
                (hook_contents (''/usr/bin/limine bios-install ''
                   @ str_path (case unique of Some alias \<Rightarrow> alias | None \<Rightarrow> parent)
                   @ '' && /usr/bin/cp /usr/share/limine/limine-bios.sys /boot/'')) = None
          \<longrightarrow> (\<exists>ps. get_kernel_params env root = Inr ps
                 \<and> write_text env (config_path (target s))
                      (config_contents (kernel_params ps) (kernels s)) = None)
          \<longrightarrow> r = Inr ())"
  using assms unfolding add_limine_bootloader_def bios_branch_def write_hook_def write_config_def
  by (auto simp: act_defs Let_def performed_def split: option.splits sum.splits)

subsection \<open>The concrete runs\<close>

lemma demo_uefi_run_eq:
  "demo_uefi_run =
     (Inr (), demo_state\<lparr>helper_flags := [''bootloader'' \<mapsto> ''limine''],
        effects :=
          [Debug ''Installing limine bootloader'', Strap ''limine'',
           Info ''Limine boot partition: /dev/sda1'',
           Info ''Limine EFI partition: /dev/sda1'',
           Mkdir (Path Rooted [''mnt'', ''boot'', ''EFI'', ''BOOT'']),
           Copy (Path Rooted [''mnt'', ''usr'', ''share'', ''limine'', ''BOOTIA32.EFI''])
                (Path Rooted [''mnt'', ''boot'', ''EFI'', ''BOOT'']),
           Copy (Path Rooted [''mnt'', ''usr'', ''share'', ''limine'', ''BOOTX64.EFI''])
                (Path Rooted [''mnt'', ''boot'', ''EFI'', ''BOOT'']),
           Mkdir (Path Rooted [''mnt'', ''etc'', ''pacman.d'', ''hooks'']),
           WriteText (Path Rooted [''mnt'', ''etc'', ''pacman.d'', ''hooks'', ''99-limine.hook''])
             (hook_contents (''/usr/bin/cp /usr/share/limine/BOOTIA32.EFI /boot/EFI/BOOT/''
                @ '' && /usr/bin/cp /usr/share/limine/BOOTX64.EFI /boot/EFI/BOOT/'')),
           WriteText (Path Rooted [''mnt'', ''boot'', ''limine.cfg''])
             (config_contents ''root=UUID=0a1b rw quiet splash'' [''linux-zen''])]\<rparr>)"
  by (simp add: demo_uefi_run_def demo_defs add_limine_bootloader_def uefi_branch_def
      relative_to_root_def write_hook_def write_config_def act_defs path_defs kernel_params_def)

lemma demo_bios_run_eq:
  "demo_bios_run =
     (Inr (), demo_state\<lparr>helper_flags := [''bootloader'' \<mapsto> ''limine''],
        effects :=
          [Debug ''Installing limine bootloader'', Strap ''limine'',
           Info ''Limine boot partition: /dev/sda1'',
           Copy (Path Rooted [''mnt'', ''usr'', ''share'', ''limine'', ''limine-bios.sys''])
                (Path Rooted [''mnt'', ''boot'']),
           SysCommand ''/usr/bin/arch-chroot /mnt limine bios-install /dev/disk/by-id/ata-DISK'',
           Mkdir (Path Rooted [''mnt'', ''etc'', ''pacman.d'', ''hooks'']),
           WriteText (Path Rooted [''mnt'', ''etc'', ''pacman.d'', ''hooks'', ''99-limine.hook''])
             (hook_contents (''/usr/bin/limine bios-install /dev/disk/by-id/ata-DISK''
                @ '' && /usr/bin/cp /usr/share/limine/limine-bios.sys /boot/'')),
           WriteText (Path Rooted [''mnt'', ''boot'', ''limine.cfg''])
             (config_contents ''root=UUID=0a1b rw quiet splash'' [''linux-zen''])]\<rparr>)"
  by (simp add: demo_bios_run_def demo_defs add_limine_bootloader_def bios_branch_def
      write_hook_def write_config_def act_defs path_defs kernel_params_def)

subsection \<open>The lines and stanzas of the boot-menu file\<close>

lemma splitter_skip:
  "c \<notin> set a \<Longrightarrow> splitter c acc (a @ b) = splitter c (rev a @ acc) b"
  by (induction a arbitrary: acc) auto

lemma config_contents_concat:
  "config_contents kp ks =
     ''TIMEOUT=5\<newline>'' @ concat (map (\<lambda>k. stanza kp k '''' @ stanza kp k ''fallback'') ks)"
proof -
  have "foldl (\<lambda>cc k. foldl (\<lambda>cc v. cc @ stanza kp k v) cc ['''', ''fallback'']) init ks =
          init @ concat (map (\<lambda>k. stanza kp k '''' @ stanza kp k ''fallback'') ks)" for init
    by (induction ks arbitrary: init) simp_all
  then show ?thesis by (simp add: config_contents_def)
qed

lemma splitter_stanza:
  assumes "single_line kp" and "single_line k" and "single_line v"
  shows "splitter CHR ''\<newline>'' [] (stanza kp k v @ rest) =
           [] # stanza_lines kp k v @ splitter CHR ''\<newline>'' [] rest"
  using assms
  by (simp add: stanza_def entry_def stanza_lines_def single_line_def splitter_skip)


lemma single_line_join:
  "single_line sep \<Longrightarrow> list_all single_line xs \<Longrightarrow> single_line (join sep xs)"
  by (induction sep xs rule: join.induct) (auto simp: single_line_def)

lemma single_line_kernel_params:
  "list_all single_line ps \<Longrightarrow> single_line (kernel_params ps)"
  unfolding kernel_params_def
  by (rule single_line_join) (simp_all add: single_line_def)

lemma splitter_stanzas:
  assumes "single_line kp" and "list_all single_line ks"
  shows "splitter CHR ''\<newline>'' []
           (concat (map (\<lambda>k. stanza kp k '''' @ stanza kp k ''fallback'') ks)) =
         concat (map (\<lambda>k. [] # stanza_lines kp k '''' @ [] # stanza_lines kp k ''fallback'') ks)
           @ [[]]"
  using assms(2)
proof (induction ks)
  case Nil
  show ?case by simp
next
  case (Cons k ks)
  have v: "single_line ''''" "single_line ''fallback''" by (simp_all add: single_line_def)
  from Cons.prems have k: "single_line k" and ks: "list_all single_line ks" by simp_all
  show ?case
    using Cons.IH [OF ks]
    by (simp add: splitter_stanza [OF assms(1) k v(1)] splitter_stanza [OF assms(1) k v(2)])
qed

lemma file_lines_config:
  assumes "single_line kp" and "list_all single_line ks"
  shows "file_lines (config_contents kp ks) =
           ''TIMEOUT=5'' #
           concat (map (\<lambda>k. [] # stanza_lines kp k '''' @ [] # stanza_lines kp k ''fallback'') ks)
             @ [[]]"
  using splitter_stanzas [OF assms]
  by (simp add: file_lines_def split_on_def config_contents_concat)

lemma take_drop_indented:
  "takeWhile is_indented (map (\<lambda>it. ''    '' @ it) es @ [] # rest) = map (\<lambda>it. ''    '' @ it) es"
  "dropWhile is_indented (map (\<lambda>it. ''    '' @ it) es @ [] # rest) = [] # rest"
  by (induction es) simp_all

lemma stanzas_stanza_lines:
  "stanzas ([] # stanza_lines kp k v @ [] # rest) = stanza_lines kp k v # stanzas ([] # rest)"
  using take_drop_indented [of "entry kp k v" rest]
  by (simp add: stanza_lines_def)

lemma stanzas_blocks:
  "stanzas (concat (map (\<lambda>k. [] # stanza_lines kp k '''' @ [] # stanza_lines kp k ''fallback'') ks)
            @ [[]]) =
   concat (map (\<lambda>k. [stanza_lines kp k '''', stanza_lines kp k ''fallback'']) ks)"
proof (induction ks)
  case Nil
  show ?case by simp
next
  case (Cons k ks)
  let ?tail = "concat (map (\<lambda>k. [] # stanza_lines kp k '''' @ [] # stanza_lines kp k ''fallback'') ks)
            @ [[]]"
  obtain rest where tail: "?tail = [] # rest" by (cases ks) simp_all
  have "stanzas ([] # stanza_lines kp k '''' @ [] # stanza_lines kp k ''fallback'' @ ?tail) =
          stanza_lines kp k '''' # stanza_lines kp k ''fallback'' # stanzas ?tail"
    unfolding tail by (simp only: stanzas_stanza_lines)
  with Cons.IH show ?case by simp
qed

lemma stanzas_config:
  assumes "single_line kp" and "list_all single_line ks"
  shows "stanzas (file_lines (config_contents kp ks)) =
           concat (map (\<lambda>k. [stanza_lines kp k '''', stanza_lines kp k ''fallback'']) ks)"
  using stanzas_blocks [of kp ks]
  by (simp add: file_lines_config [OF assms])

lemma boot_menu_written:
  assumes "add_limine_bootloader env boot_partition efi_partition root s = (Inr u, s')"
  shows "\<exists>ps. get_kernel_params env root = Inr ps
           \<and> boot_menu s s' = Some (config_contents (kernel_params ps) (kernels s))"
proof (cases "has_uefi env")
  case True
  from run_uefi_success [OF True assms] show ?thesis
    by (auto simp: boot_menu_def performed_def)
next
  case False
  from run_bios_success [OF False assms] show ?thesis
    by (auto simp: boot_menu_def performed_def)
qed

lemma demo_run_returns:
  "fst (add_limine_bootloader (demo_env uefi) demo_boot (Some demo_boot) ()
         (demo_state\<lparr>kernels := ks\<rparr>)) = Inr ()"
  by (cases uefi)
     (simp_all add: demo_env_def demo_state_def demo_boot_def add_limine_bootloader_def
        uefi_branch_def bios_branch_def relative_to_root_def write_hook_def write_config_def
        act_defs Let_def)

lemma concat_pairs_replicate: "concat (map (\<lambda>k. [x, x]) ks) = replicate (2 * length ks) x"
  by (induction ks) simp_all

subsection \<open>Words, paths and the hook file\<close>

lemma plain_char_not_special:
  assumes "plain_char c"
  shows "c \<noteq> CHR '' ''" and "c \<noteq> CHR ''/''" and "c \<noteq> CHR ''\<newline>''" and "c \<noteq> CHR 0x22"
    and "c \<noteq> CHR ''&''"
  using assms by (auto simp: plain_char_def)

lemma join_avoids:
  "c \<notin> set sep \<Longrightarrow> list_all (\<lambda>part. c \<notin> set part) ps \<Longrightarrow> c \<notin> set (join sep ps)"
  by (induction sep ps rule: join.induct) auto

lemma plain_parts_avoid:
  assumes "plain_path p" and "\<not> plain_char c"
  shows "list_all (\<lambda>part. c \<notin> set part) (parts p)"
  using assms unfolding plain_path_def list_all_iff by auto

lemma str_path_avoids:
  assumes "plain_path p" and "\<not> plain_char c" and "c \<noteq> CHR ''/''" and "c \<noteq> CHR ''.''"
  shows "c \<notin> set (str_path p)"
  using join_avoids [of c "''/''" "parts p"] plain_parts_avoid [OF assms(1,2)] assms(3,4)
  by (simp add: str_path_def split: anchor.splits)

lemma str_path_no_blank: "plain_path p \<Longrightarrow> CHR '' '' \<notin> set (str_path p)"
  by (rule str_path_avoids) (simp_all add: plain_char_def)

lemma str_path_single_line: "plain_path p \<Longrightarrow> CHR ''\<newline>'' \<notin> set (str_path p)"
  by (rule str_path_avoids) (simp_all add: plain_char_def)

lemma str_path_no_amp: "plain_path p \<Longrightarrow> CHR ''&'' \<notin> set (str_path p)"
  by (rule str_path_avoids) (simp_all add: plain_char_def)

lemma str_path_not_and: "plain_path p \<Longrightarrow> str_path p \<noteq> ''&&''"
  using str_path_no_amp [of p] by auto

lemma split_join_parts:
  assumes "list_all (\<lambda>part. part \<noteq> [] \<and> CHR ''/'' \<notin> set part) ps"
  shows "filter (\<lambda>part. part \<noteq> []) (splitter CHR ''/'' [] (join ''/'' ps @ CHR ''/'' # rest)) =
           ps @ filter (\<lambda>part. part \<noteq> []) (splitter CHR ''/'' [] rest)"
  using assms
  by (induction "''/''" ps rule: join.induct) (simp_all add: splitter_skip)

lemma parse_path_under:
  assumes "anchor mp = Rooted" and "plain_path mp"
  shows "parse_path (str_path mp @ ''/EFI/BOOT/'') = Path Rooted (parts mp @ [''EFI'', ''BOOT''])"
proof -
  from assms(2) have "list_all (\<lambda>part. part \<noteq> [] \<and> CHR ''/'' \<notin> set part) (parts mp)"
    unfolding plain_path_def list_all_iff by (auto dest: plain_char_not_special(2))
  from split_join_parts [OF this, of "''EFI/BOOT/''"] assms(1) show ?thesis
    by (simp add: parse_path_def split_on_def str_path_def)
qed

lemma strip_prefix_same: "strip_prefix (a @ b) (a @ c) = strip_prefix b c"
  by (induction a) simp_all

lemma strip_prefix_all: "strip_prefix a (a @ c) = Some c"
  using strip_prefix_same [of a "[]" c] by simp

lemma hook_exec_hook_contents:
  assumes "CHR ''\<newline>'' \<notin> set command"
  shows "hook_exec (hook_contents command) = Some command"
  using assms
  by (simp add: hook_exec_def hook_contents_def file_lines_def split_on_def splitter_skip
      List.map_filter_simps unquote_def butlast_append)


lemma long_word_not_and: "w @ ''/EFI/BOOT/'' \<noteq> ''&&''"
proof
  assume "w @ ''/EFI/BOOT/'' = ''&&''"
  then have "length (w @ ''/EFI/BOOT/'') = length ''&&''" by (rule arg_cong)
  then show False by simp
qed

lemma replay_uefi_command:
  assumes "anchor mp = Rooted" and "plain_path mp"
  shows "replay (''/usr/bin/cp /usr/share/limine/BOOTIA32.EFI '' @ str_path mp @ ''/EFI/BOOT/''
                 @ '' && /usr/bin/cp /usr/share/limine/BOOTX64.EFI '' @ str_path mp
                 @ ''/EFI/BOOT/'') =
           [Some (CopyInto (Path Rooted [''usr'', ''share'', ''limine'', ''BOOTIA32.EFI''])
                           (Path Rooted (parts mp @ [''EFI'', ''BOOT'']))),
            Some (CopyInto (Path Rooted [''usr'', ''share'', ''limine'', ''BOOTX64.EFI''])
                           (Path Rooted (parts mp @ [''EFI'', ''BOOT''])))]"
proof -
  have words: "split_on CHR '' ''
          (''/usr/bin/cp /usr/share/limine/BOOTIA32.EFI '' @ str_path mp @ ''/EFI/BOOT/''
                 @ '' && /usr/bin/cp /usr/share/limine/BOOTX64.EFI '' @ str_path mp
                 @ ''/EFI/BOOT/'') =
        [''/usr/bin/cp'', ''/usr/share/limine/BOOTIA32.EFI'', str_path mp @ ''/EFI/BOOT/'',
         ''&&'',
         ''/usr/bin/cp'', ''/usr/share/limine/BOOTX64.EFI'', str_path mp @ ''/EFI/BOOT/'']"
    using str_path_no_blank [OF assms(2)] by (simp add: split_on_def splitter_skip)
  have commands: "split_on ''&&''
        [''/usr/bin/cp'', ''/usr/share/limine/BOOTIA32.EFI'', str_path mp @ ''/EFI/BOOT/'',
         ''&&'',
         ''/usr/bin/cp'', ''/usr/share/limine/BOOTX64.EFI'', str_path mp @ ''/EFI/BOOT/''] =
        [[''/usr/bin/cp'', ''/usr/share/limine/BOOTIA32.EFI'', str_path mp @ ''/EFI/BOOT/''],
         [''/usr/bin/cp'', ''/usr/share/limine/BOOTX64.EFI'', str_path mp @ ''/EFI/BOOT/'']]"
    using long_word_not_and [of "str_path mp"] by (simp add: split_on_def)
  have src: "parse_path ''/usr/share/limine/BOOTIA32.EFI'' =
               Path Rooted [''usr'', ''share'', ''limine'', ''BOOTIA32.EFI'']"
       "parse_path ''/usr/share/limine/BOOTX64.EFI'' =
               Path Rooted [''usr'', ''share'', ''limine'', ''BOOTX64.EFI'']"
    by (simp_all add: parse_path_def split_on_def)
  show ?thesis
    unfolding replay_def words commands
    by (simp add: src parse_path_under [OF assms])
qed

lemma replay_bios_command:
  assumes "plain_path dev"
  shows "replay (''/usr/bin/limine bios-install '' @ str_path dev
                 @ '' && /usr/bin/cp /usr/share/limine/limine-bios.sys /boot/'') =
           [Some (BiosInstall (str_path dev)),
            Some (CopyInto (Path Rooted [''usr'', ''share'', ''limine'', ''limine-bios.sys''])
                           (Path Rooted [''boot'']))]"
proof -
  have words: "split_on CHR '' ''
          (''/usr/bin/limine bios-install '' @ str_path dev
                 @ '' && /usr/bin/cp /usr/share/limine/limine-bios.sys /boot/'') =
        [''/usr/bin/limine'', ''bios-install'', str_path dev, ''&&'',
         ''/usr/bin/cp'', ''/usr/share/limine/limine-bios.sys'', ''/boot/'']"
    using str_path_no_blank [OF assms] by (simp add: split_on_def splitter_skip)
  have commands: "split_on ''&&''
        [''/usr/bin/limine'', ''bios-install'', str_path dev, ''&&'',
         ''/usr/bin/cp'', ''/usr/share/limine/limine-bios.sys'', ''/boot/''] =
        [[''/usr/bin/limine'', ''bios-install'', str_path dev],
         [''/usr/bin/cp'', ''/usr/share/limine/limine-bios.sys'', ''/boot/'']]"
    using str_path_not_and [OF assms] by (simp add: split_on_def)
  have paths: "parse_path ''/usr/share/limine/limine-bios.sys'' =
               Path Rooted [''usr'', ''share'', ''limine'', ''limine-bios.sys'']"
       "parse_path ''/boot/'' = Path Rooted [''boot'']"
    by (simp_all add: parse_path_def split_on_def)
  show ?thesis
    unfolding replay_def words commands by (simp add: paths)
qed

lemma splitter_last: "c \<notin> set a \<Longrightarrow> splitter c acc a = [rev acc @ a]"
  using splitter_skip [of c a acc "[]"] by simp

lemma inside_target:
  "inside tgt (Path (anchor tgt) (parts tgt @ rest)) = Some (Path Rooted rest)"
  by (simp add: inside_def strip_prefix_all)

lemma placed_uefi:
  "placed tgt
     [Debug a, Strap b, Info c, Info d,
      Mkdir (efi_dir_path tgt (Path Unrooted (parts mp))),
      Copy (slash (limine_path tgt) ''BOOTIA32.EFI'') (efi_dir_path tgt (Path Unrooted (parts mp))),
      Copy (slash (limine_path tgt) ''BOOTX64.EFI'') (efi_dir_path tgt (Path Unrooted (parts mp))),
      Mkdir e, WriteText f g, WriteText h i] =
   [Some (CopyInto (Path Rooted [''usr'', ''share'', ''limine'', ''BOOTIA32.EFI''])
                   (Path Rooted (parts mp @ [''EFI'', ''BOOT'']))),
    Some (CopyInto (Path Rooted [''usr'', ''share'', ''limine'', ''BOOTX64.EFI''])
                   (Path Rooted (parts mp @ [''EFI'', ''BOOT''])))]"
  using inside_target [of tgt "[''usr'', ''share'', ''limine'', ''BOOTIA32.EFI'']"]
    inside_target [of tgt "[''usr'', ''share'', ''limine'', ''BOOTX64.EFI'']"]
    inside_target [of tgt "parts mp @ [''EFI'', ''BOOT'']"]
  by (simp add: limine_path_def efi_dir_path_def slash_def slash_path_def is_absolute_def)

lemma placed_bios:
  assumes "plain_path dev"
  shows "placed tgt
     [Debug a, Strap b, Info c,
      Copy (slash (limine_path tgt) ''limine-bios.sys'') (slash tgt ''boot''),
      SysCommand (''/usr/bin/arch-chroot '' @ str_path tgt @ '' limine bios-install ''
                  @ str_path dev),
      Mkdir e, WriteText f g, WriteText h i] =
   [Some (CopyInto (Path Rooted [''usr'', ''share'', ''limine'', ''limine-bios.sys''])
                   (Path Rooted [''boot''])),
    Some (BiosInstall (str_path dev))]"
proof -
  have "strip_prefix (''/usr/bin/arch-chroot '' @ str_path tgt @ '' '')
          (''/usr/bin/arch-chroot '' @ str_path tgt @ '' limine bios-install '' @ str_path dev) =
        Some (''limine bios-install '' @ str_path dev)"
    using strip_prefix_all [of "''/usr/bin/arch-chroot '' @ str_path tgt @ '' ''"
        "''limine bios-install '' @ str_path dev"]
    by simp
  moreover have "split_on CHR '' '' (''limine bios-install '' @ str_path dev) =
                   [''limine'', ''bios-install'', str_path dev]"
    using str_path_no_blank [OF assms] by (simp add: split_on_def splitter_last)
  ultimately show ?thesis
    using inside_target [of tgt "[''usr'', ''share'', ''limine'', ''limine-bios.sys'']"]
      inside_target [of tgt "[''boot'']"]
    by (simp add: limine_path_def slash_def)
qed


lemma hook_not_config: "hook_path tgt \<noteq> config_path tgt"
  by (simp add: hook_path_def hooks_dir_def config_path_def slash_def)

subsection \<open>Failing runs\<close>

text \<open>
  Claim C1. In UEFI mode, when \<^verbatim>\<open>efi_partition\<close> is absent or has no mount point, the method
  raises before any file operation of its own: no directory is created, nothing is copied, no
  command is run and neither the hook nor the boot-menu file is written, and the installer
  object is unchanged. What has happened by then is the strap of the \<^verbatim>\<open>limine\<close> package into
  the target (line 30 comes before the checks of lines 38-41) and two log lines; when the
  strap itself raises, only the first log line.
\<close>

theorem efi_precondition_raises_before_own_writes:
  assumes "has_uefi env"
      and "efi_partition = None \<or> (\<exists>e. efi_partition = Some e \<and> mountpoint e = None)"
  shows "add_limine_bootloader env boot_partition efi_partition root s =
     (case strap env ''limine'' of
        Some err \<Rightarrow> (Inl err, s\<lparr>effects := effects s @ [Debug ''Installing limine bootloader'']\<rparr>)
      | None \<Rightarrow>
         (Inl (ValueError (if efi_partition = None then ''Could not detect efi partition''
                           else ''EFI partition is not mounted'')),
          s\<lparr>effects := effects s @
               [Debug ''Installing limine bootloader'', Strap ''limine'',
                Info (''Limine boot partition: '' @ str_opt_path (dev_path boot_partition))]\<rparr>))"
  using assms unfolding add_limine_bootloader_def uefi_branch_def
  by (auto simp: act_defs split: option.splits)

theorem efi_precondition_raises_before_own_writes_witness:
  "has_uefi (demo_env True) \<and>
   add_limine_bootloader (demo_env True) demo_boot (Some (demo_boot\<lparr>mountpoint := None\<rparr>)) ()
       demo_state =
     (Inl (ValueError ''EFI partition is not mounted''),
      demo_state\<lparr>effects := [Debug ''Installing limine bootloader'', Strap ''limine'',
                              Info ''Limine boot partition: /dev/sda1'']\<rparr>)"
proof -
  have u: "has_uefi (demo_env True)" by (simp add: demo_env_def)
  have m: "Some (demo_boot\<lparr>mountpoint := None\<rparr>) = None \<or>
           (\<exists>e. Some (demo_boot\<lparr>mountpoint := None\<rparr>) = Some e \<and> mountpoint e = None)" by simp
  show ?thesis
    using u efi_precondition_raises_before_own_writes [OF u m, of demo_boot "()" demo_state]
    by (simp add: demo_env_def demo_state_def demo_boot_def path_defs)
qed

text \<open>
  Claim C1 as it is written fails: with no EFI partition on a UEFI machine the method raises,
  but the \<^verbatim>\<open>limine\<close> package has already been strapped into the target.
\<close>

theorem efi_precondition_strap_comes_first:
  "has_uefi (demo_env True) \<and>
   add_limine_bootloader (demo_env True) demo_boot None () demo_state =
     (Inl (ValueError ''Could not detect efi partition''),
      demo_state\<lparr>effects := [Debug ''Installing limine bootloader'', Strap ''limine'',
                              Info ''Limine boot partition: /dev/sda1'']\<rparr>) \<and>
   list_ex touches_target [Debug ''Installing limine bootloader'', Strap ''limine'',
                           Info ''Limine boot partition: /dev/sda1'']"
  by (simp add: add_limine_bootloader_def uefi_branch_def act_defs demo_env_def demo_state_def
      demo_boot_def path_defs)




subsection \<open>Successful runs\<close>

text \<open>
  Claim C5. Take a run in BIOS mode. First: if the strap returns, the parent device of the
  boot partition and its unique alias path are looked up, and the copy and the command return,
  then the run has copied \<^verbatim>\<open>limine-bios.sys\<close> from the limine share directory into \<^verbatim>\<open>boot\<close>
  under the target, as its only copy, and has run \<^verbatim>\<open>limine bios-install\<close> inside the target
  exactly once, on the alias when there is one and on the parent device when there is none;
  this holds whatever the later steps do, and the run returns when the collaborators of the
  hook and of the boot-menu file return as well. Second: a run that returns has made these
  lookups, this one copy and this one command.
\<close>

theorem bios_deploys_once:
  assumes "\<not> has_uefi env"
      and "add_limine_bootloader env boot_partition efi_partition root s = (r, s')"
  shows "(\<forall>boot_dev parent unique.
            strap env ''limine'' = None
          \<longrightarrow> safe_dev_path boot_partition = Inr boot_dev
          \<longrightarrow> get_parent_device_path env boot_dev = Inr parent
          \<longrightarrow> get_unique_path_for_device env parent = Inr unique
          \<longrightarrow> copy env (slash (limine_path (target s)) ''limine-bios.sys'')
                       (slash (target s) ''boot'') = None
          \<longrightarrow> sys_command env (''/usr/bin/arch-chroot '' @ str_path (target s)
                  @ '' limine bios-install ''
                  @ str_path (case unique of Some alias \<Rightarrow> alias | None \<Rightarrow> parent)) = None
          \<longrightarrow> copies (performed s s') =
                [(slash (limine_path (target s)) ''limine-bios.sys'', slash (target s) ''boot'')]
            \<and> sys_commands (performed s s') =
                [''/usr/bin/arch-chroot '' @ str_path (target s) @ '' limine bios-install ''
                 @ str_path (case unique of Some alias \<Rightarrow> alias | None \<Rightarrow> parent)]
            \<and> (mkdir env (hooks_dir (target s)) = None
               \<longrightarrow> write_text env (hook_path (target s))
                     (hook_contents (''/usr/bin/limine bios-install ''
                        @ str_path (case unique of Some alias \<Rightarrow> alias | None \<Rightarrow> parent)
                        @ '' && /usr/bin/cp /usr/share/limine/limine-bios.sys /boot/'')) = None
               \<longrightarrow> (\<exists>ps. get_kernel_params env root = Inr ps
                      \<and> write_text env (config_path (target s))
                           (config_contents (kernel_params ps) (kernels s)) = None)
               \<longrightarrow> r = Inr ()))
       \<and> (r = Inr ()
          \<longrightarrow> (\<exists>boot_dev parent unique.
                  safe_dev_path boot_partition = Inr boot_dev
                \<and> get_parent_device_path env boot_dev = Inr parent
                \<and> get_unique_path_for_device env parent = Inr unique
                \<and> copies (performed s s') =
                    [(slash (limine_path (target s)) ''limine-bios.sys'',
                      slash (target s) ''boot'')]
                \<and> sys_commands (performed s s') =
                    [''/usr/bin/arch-chroot '' @ str_path (target s) @ '' limine bios-install ''
                     @ str_path (case unique of Some alias \<Rightarrow> alias | None \<Rightarrow> parent)]))"
proof (intro conjI allI impI)
  fix boot_dev parent unique
  assume returns: "strap env ''limine'' = None"
    "safe_dev_path boot_partition = Inr boot_dev"
    "get_parent_device_path env boot_dev = Inr parent"
    "get_unique_path_for_device env parent = Inr unique"
    "copy env (slash (limine_path (target s)) ''limine-bios.sys'')
              (slash (target s) ''boot'') = None"
    "sys_command env (''/usr/bin/arch-chroot '' @ str_path (target s)
        @ '' limine bios-install ''
        @ str_path (case unique of Some alias \<Rightarrow> alias | None \<Rightarrow> parent)) = None"
  note forward = bios_run_forward [OF assms returns]
  from forward show "copies (performed s s') =
      [(slash (limine_path (target s)) ''limine-bios.sys'', slash (target s) ''boot'')]"
    by blast
  from forward show "sys_commands (performed s s') =
      [''/usr/bin/arch-chroot '' @ str_path (target s) @ '' limine bios-install ''
       @ str_path (case unique of Some alias \<Rightarrow> alias | None \<Rightarrow> parent)]"
    by blast
  assume "mkdir env (hooks_dir (target s)) = None"
    and "write_text env (hook_path (target s))
           (hook_contents (''/usr/bin/limine bios-install ''
              @ str_path (case unique of Some alias \<Rightarrow> alias | None \<Rightarrow> parent)
              @ '' && /usr/bin/cp /usr/share/limine/limine-bios.sys /boot/'')) = None"
    and "\<exists>ps. get_kernel_params env root = Inr ps
           \<and> write_text env (config_path (target s))
                (config_contents (kernel_params ps) (kernels s)) = None"
  with forward show "r = Inr ()" by blast
next
  assume "r = Inr ()"
  with assms(2) have run: "add_limine_bootloader env boot_partition efi_partition root s =
                            (Inr (), s')"
    by simp
  from run_bios_success [OF assms(1) run] obtain boot_dev parent unique ps where
    lookups: "safe_dev_path boot_partition = Inr boot_dev"
      "get_parent_device_path env boot_dev = Inr parent"
      "get_unique_path_for_device env parent = Inr unique"
    and s': "s' = s\<lparr>helper_flags := (helper_flags s)(''bootloader'' \<mapsto> ''limine''),
                    effects := effects s @
                      [Debug ''Installing limine bootloader'', Strap ''limine'',
                       Info (''Limine boot partition: '' @ str_opt_path (dev_path boot_partition)),
                       Copy (slash (limine_path (target s)) ''limine-bios.sys'')
                            (slash (target s) ''boot''),
                       SysCommand (''/usr/bin/arch-chroot '' @ str_path (target s)
                          @ '' limine bios-install ''
                          @ str_path (case unique of Some a \<Rightarrow> a | None \<Rightarrow> parent)),
                       Mkdir (hooks_dir (target s)),
                       WriteText (hook_path (target s))
                         (hook_contents (''/usr/bin/limine bios-install ''
                            @ str_path (case unique of Some a \<Rightarrow> a | None \<Rightarrow> parent)
                            @ '' && /usr/bin/cp /usr/share/limine/limine-bios.sys /boot/'')),
                       WriteText (config_path (target s))
                         (config_contents (kernel_params ps) (kernels s))]\<rparr>"
    by blast
  from s' have "copies (performed s s') =
             [(slash (limine_path (target s)) ''limine-bios.sys'', slash (target s) ''boot'')]"
    and "sys_commands (performed s s') =
             [''/usr/bin/arch-chroot '' @ str_path (target s) @ '' limine bios-install ''
              @ str_path (case unique of Some alias \<Rightarrow> alias | None \<Rightarrow> parent)]"
    by (simp_all add: performed_def)
  with lookups show "\<exists>boot_dev parent unique.
                  safe_dev_path boot_partition = Inr boot_dev
                \<and> get_parent_device_path env boot_dev = Inr parent
                \<and> get_unique_path_for_device env parent = Inr unique
                \<and> copies (performed s s') =
                    [(slash (limine_path (target s)) ''limine-bios.sys'',
                      slash (target s) ''boot'')]
                \<and> sys_commands (performed s s') =
                    [''/usr/bin/arch-chroot '' @ str_path (target s) @ '' limine bios-install ''
                     @ str_path (case unique of Some alias \<Rightarrow> alias | None \<Rightarrow> parent)]"
    by blast
qed

theorem bios_deploys_once_witness:
  "\<not> has_uefi (demo_env False) \<and> strap (demo_env False) ''limine'' = None \<and>
   safe_dev_path demo_boot = Inr (Path Rooted [''dev'', ''sda1'']) \<and>
   get_parent_device_path (demo_env False) (Path Rooted [''dev'', ''sda1'']) =
     Inr (Path Rooted [''dev'', ''sda'']) \<and>
   get_unique_path_for_device (demo_env False) (Path Rooted [''dev'', ''sda'']) =
     Inr (Some (Path Rooted [''dev'', ''disk'', ''by-id'', ''ata-DISK''])) \<and>
   fst demo_bios_run = Inr () \<and>
   copies (performed demo_state (snd demo_bios_run)) =
     [(Path Rooted [''mnt'', ''usr'', ''share'', ''limine'', ''limine-bios.sys''],
       Path Rooted [''mnt'', ''boot''])] \<and>
   sys_commands (performed demo_state (snd demo_bios_run)) =
     [''/usr/bin/arch-chroot /mnt limine bios-install /dev/disk/by-id/ata-DISK''] \<and>
   \<not> has_uefi no_alias_env \<and>
   get_unique_path_for_device no_alias_env (Path Rooted [''dev'', ''sda'']) = Inr None \<and>
   fst no_alias_run = Inr () \<and>
   copies (performed demo_state (snd no_alias_run)) =
     [(Path Rooted [''mnt'', ''usr'', ''share'', ''limine'', ''limine-bios.sys''],
       Path Rooted [''mnt'', ''boot''])] \<and>
   sys_commands (performed demo_state (snd no_alias_run)) =
     [''/usr/bin/arch-chroot /mnt limine bios-install /dev/sda'']"
proof -
  have mode: "\<not> has_uefi (demo_env False)" "\<not> has_uefi no_alias_env"
    by (simp_all add: demo_env_def no_alias_env_def)
  have run: "add_limine_bootloader (demo_env False) demo_boot None () demo_state =
               (fst demo_bios_run, snd demo_bios_run)"
    by (simp add: demo_bios_run_def)
  have no_alias: "add_limine_bootloader no_alias_env demo_boot None () demo_state =
               (fst no_alias_run, snd no_alias_run)"
    by (simp add: no_alias_run_def)
  from bios_deploys_once [OF mode(1) run] bios_deploys_once [OF mode(2) no_alias] mode
  show ?thesis
    by (simp add: demo_env_def no_alias_env_def demo_state_def demo_boot_def path_defs
        kernel_params_def)
qed

text \<open>
  Claim C8. After a successful run the entry \<^verbatim>\<open>'bootloader'\<close> of \<^verbatim>\<open>helper_flags\<close> is
  \<^verbatim>\<open>"limine"\<close>, and the last thing done before it was set is the write of the boot-menu file.
  A run that raises, at the write of the boot-menu file or anywhere before, leaves
  \<^verbatim>\<open>helper_flags\<close> as it was.
\<close>

theorem bootloader_flag_set_after_config:
  assumes "add_limine_bootloader env boot_partition efi_partition root s = (r, s')"
  shows "case r of
           Inr u \<Rightarrow> helper_flags s' = (helper_flags s)(''bootloader'' \<mapsto> ''limine'')
                   \<and> (\<exists>ps. get_kernel_params env root = Inr ps
                        \<and> performed s s' \<noteq> []
                        \<and> last (performed s s') =
                            WriteText (config_path (target s))
                              (config_contents (kernel_params ps) (kernels s)))
         | Inl err \<Rightarrow> helper_flags s' = helper_flags s"
proof (cases r)
  case (Inl err)
  with assms show ?thesis by (simp add: run_raises_keeps_flags)
next
  case (Inr u)
  show ?thesis
  proof (cases "has_uefi env")
    case True
    from run_uefi_success [OF True assms [unfolded Inr]] Inr show ?thesis
      by (auto simp: performed_def)
  next
    case False
    from run_bios_success [OF False assms [unfolded Inr]] Inr show ?thesis
      by (auto simp: performed_def)
  qed
qed

theorem bootloader_flag_set_after_config_witness:
  "fst demo_uefi_run = Inr () \<and>
   helper_flags (snd demo_uefi_run) ''bootloader'' = Some ''limine'' \<and>
   last (performed demo_state (snd demo_uefi_run)) =
     WriteText (Path Rooted [''mnt'', ''boot'', ''limine.cfg''])
       (config_contents ''root=UUID=0a1b rw quiet splash'' [''linux-zen''])"
proof -
  have run: "add_limine_bootloader (demo_env True) demo_boot (Some demo_boot) () demo_state =
               (fst demo_uefi_run, snd demo_uefi_run)"
    by (simp add: demo_uefi_run_def)
  from bootloader_flag_set_after_config [OF run] show ?thesis
    by (simp add: demo_uefi_run_eq demo_env_def demo_state_def path_defs kernel_params_def
        performed_def)
qed

subsection \<open>The boot-menu file\<close>

text \<open>
  In the statements below \<open>ps\<close> is what \<^verbatim>\<open>_get_kernel_params(root)\<close> returned. The kernel
  identifiers and these parameters are taken to be free of line breaks, as package names and
  kernel parameters are; the file is read line by line.
\<close>

text \<open>
  Claim C2. With the kernel list \<^verbatim>\<open>["linux-zen"]\<close> the boot-menu file of a successful run has
  exactly two stanzas, the primary one and then the fallback one. Both have the kernel path
  \<^verbatim>\<open>boot:///vmlinuz-linux-zen\<close>; the module path is \<^verbatim>\<open>initramfs-linux-zen.img\<close> in the first and
  \<^verbatim>\<open>initramfs-linux-zenfallback.img\<close> in the second. The two stanzas differ in their label line
  (position 0) and in their module-path line (position 3) and nowhere else.
\<close>

theorem linux_zen_two_stanzas:
  assumes "add_limine_bootloader env boot_partition efi_partition root s = (Inr u, s')"
      and "kernels s = [''linux-zen'']"
      and "get_kernel_params env root = Inr ps" and "list_all single_line ps"
  shows "\<exists>c. boot_menu s s' = Some c
           \<and> stanzas (file_lines c) =
               [['':Polaris Linux '',
                 ''    PROTOCOL=linux'',
                 ''    KERNEL_PATH=boot:///vmlinuz-linux-zen'',
                 ''    MODULE_PATH=boot:///initramfs-linux-zen.img'',
                 ''    CMDLINE='' @ kernel_params ps],
                ['':Polaris Linux fallback'',
                 ''    PROTOCOL=linux'',
                 ''    KERNEL_PATH=boot:///vmlinuz-linux-zen'',
                 ''    MODULE_PATH=boot:///initramfs-linux-zenfallback.img'',
                 ''    CMDLINE='' @ kernel_params ps]]
           \<and> differing_lines (stanzas (file_lines c) ! 0) (stanzas (file_lines c) ! 1) = [0, 3]"
proof -
  from boot_menu_written [OF assms(1)] assms(2,3)
  have menu: "boot_menu s s' = Some (config_contents (kernel_params ps) [''linux-zen''])"
    by simp
  have zen: "list_all single_line [''linux-zen'']" by (simp add: single_line_def)
  have "stanzas (file_lines (config_contents (kernel_params ps) [''linux-zen''])) =
               [['':Polaris Linux '',
                 ''    PROTOCOL=linux'',
                 ''    KERNEL_PATH=boot:///vmlinuz-linux-zen'',
                 ''    MODULE_PATH=boot:///initramfs-linux-zen.img'',
                 ''    CMDLINE='' @ kernel_params ps],
                ['':Polaris Linux fallback'',
                 ''    PROTOCOL=linux'',
                 ''    KERNEL_PATH=boot:///vmlinuz-linux-zen'',
                 ''    MODULE_PATH=boot:///initramfs-linux-zenfallback.img'',
                 ''    CMDLINE='' @ kernel_params ps]]"
    by (simp add: stanzas_config [OF single_line_kernel_params [OF assms(4)] zen]
        stanza_lines_def entry_def)
  with menu show ?thesis
    by (simp add: differing_lines_def upt_rec [of 0] upt_rec [of "Suc 0"] upt_rec [of 2]
        upt_rec [of 3] upt_rec [of 4])
qed

theorem linux_zen_two_stanzas_witness:
  "fst demo_uefi_run = Inr () \<and> kernels demo_state = [''linux-zen''] \<and>
   get_kernel_params (demo_env True) () = Inr [''root=UUID=0a1b'', ''rw''] \<and>
   list_all single_line [''root=UUID=0a1b'', ''rw''] \<and>
   (\<exists>c. boot_menu demo_state (snd demo_uefi_run) = Some c
       \<and> stanzas (file_lines c) =
               [['':Polaris Linux '',
                 ''    PROTOCOL=linux'',
                 ''    KERNEL_PATH=boot:///vmlinuz-linux-zen'',
                 ''    MODULE_PATH=boot:///initramfs-linux-zen.img'',
                 ''    CMDLINE=root=UUID=0a1b rw quiet splash''],
                ['':Polaris Linux fallback'',
                 ''    PROTOCOL=linux'',
                 ''    KERNEL_PATH=boot:///vmlinuz-linux-zen'',
                 ''    MODULE_PATH=boot:///initramfs-linux-zenfallback.img'',
                 ''    CMDLINE=root=UUID=0a1b rw quiet splash'']])"
proof -
  have ok: "fst demo_uefi_run = Inr ()" by (simp add: demo_uefi_run_eq)
  have run: "add_limine_bootloader (demo_env True) demo_boot (Some demo_boot) () demo_state =
               (Inr (), snd demo_uefi_run)"
    using ok by (simp add: demo_uefi_run_def prod_eq_iff)
  have ks: "kernels demo_state = [''linux-zen'']" by (simp add: demo_state_def)
  have ps: "get_kernel_params (demo_env True) () = Inr [''root=UUID=0a1b'', ''rw'']"
    by (simp add: demo_env_def)
  have lines: "list_all single_line [''root=UUID=0a1b'', ''rw'']" by (simp add: single_line_def)
  from linux_zen_two_stanzas [OF run ks ps lines] ok ks ps lines show ?thesis
    by (auto simp: kernel_params_def)
qed

text \<open>
  Claim C2 as it is written fails: the two stanzas are not identical apart from the
  module-path line, their label lines differ as well.
\<close>

theorem linux_zen_stanzas_differ_in_label:
  "boot_menu demo_state (snd demo_uefi_run) =
     Some (config_contents ''root=UUID=0a1b rw quiet splash'' [''linux-zen'']) \<and>
   stanzas (file_lines (config_contents ''root=UUID=0a1b rw quiet splash'' [''linux-zen'']))
     ! 0 ! 0 = '':Polaris Linux '' \<and>
   stanzas (file_lines (config_contents ''root=UUID=0a1b rw quiet splash'' [''linux-zen'']))
     ! 1 ! 0 = '':Polaris Linux fallback'' \<and>
   differing_lines
     (stanzas (file_lines (config_contents ''root=UUID=0a1b rw quiet splash'' [''linux-zen''])) ! 0)
     (stanzas (file_lines (config_contents ''root=UUID=0a1b rw quiet splash'' [''linux-zen''])) ! 1)
     = [0, 3]"
proof -
  have kp: "single_line ''root=UUID=0a1b rw quiet splash''" by (simp add: single_line_def)
  have zen: "list_all single_line [''linux-zen'']" by (simp add: single_line_def)
  have menu: "boot_menu demo_state (snd demo_uefi_run) =
     Some (config_contents ''root=UUID=0a1b rw quiet splash'' [''linux-zen''])"
    by (simp add: demo_uefi_run_eq boot_menu_def performed_def demo_state_def path_defs)
  show ?thesis
    unfolding menu
    by (simp add: stanzas_config [OF kp zen] stanza_lines_def entry_def differing_lines_def
        upt_rec [of 0] upt_rec [of "Suc 0"] upt_rec [of 2] upt_rec [of 3] upt_rec [of 4])
qed

text \<open>
  Claim C6. With two kernel identifiers \<open>k1\<close>, \<open>k2\<close> the boot-menu file of a successful run has
  exactly four stanzas: primary and fallback of \<open>k1\<close>, then primary and fallback of \<open>k2\<close>.
  (This holds whether or not the two identifiers are different.)
\<close>

theorem two_kernels_four_stanzas:
  assumes "add_limine_bootloader env boot_partition efi_partition root s = (Inr u, s')"
      and "kernels s = [k1, k2]" and "single_line k1" and "single_line k2"
      and "get_kernel_params env root = Inr ps" and "list_all single_line ps"
  shows "\<exists>c. boot_menu s s' = Some c
           \<and> stanzas (file_lines c) =
               map (\<lambda>(k, variant).
                      ['':Polaris Linux '' @ variant,
                       ''    PROTOCOL=linux'',
                       ''    KERNEL_PATH=boot:///vmlinuz-'' @ k,
                       ''    MODULE_PATH=boot:///initramfs-'' @ k @ variant @ ''.img'',
                       ''    CMDLINE='' @ kernel_params ps])
                   [(k1, ''''), (k1, ''fallback''), (k2, ''''), (k2, ''fallback'')]"
proof -
  from boot_menu_written [OF assms(1)] assms(2,5)
  have menu: "boot_menu s s' = Some (config_contents (kernel_params ps) [k1, k2])"
    by simp
  have ks: "list_all single_line [k1, k2]" using assms(3,4) by simp
  show ?thesis
    unfolding menu
    by (simp add: stanzas_config [OF single_line_kernel_params [OF assms(6)] ks]
        stanza_lines_def entry_def)
qed

theorem two_kernels_four_stanzas_witness:
  "fst two_kernel_run = Inr () \<and> kernels two_kernel_state = [''linux'', ''linux-lts''] \<and>
   single_line ''linux'' \<and> single_line ''linux-lts'' \<and>
   get_kernel_params (demo_env False) () = Inr [''root=UUID=0a1b'', ''rw''] \<and>
   list_all single_line [''root=UUID=0a1b'', ''rw''] \<and>
   (\<exists>c. boot_menu two_kernel_state (snd two_kernel_run) = Some c
       \<and> map (\<lambda>st. st ! 3) (stanzas (file_lines c)) =
           [''    MODULE_PATH=boot:///initramfs-linux.img'',
            ''    MODULE_PATH=boot:///initramfs-linuxfallback.img'',
            ''    MODULE_PATH=boot:///initramfs-linux-lts.img'',
            ''    MODULE_PATH=boot:///initramfs-linux-ltsfallback.img''])"
proof -
  have ok: "fst two_kernel_run = Inr ()"
    by (simp add: two_kernel_run_def two_kernel_state_def demo_run_returns)
  have run: "add_limine_bootloader (demo_env False) demo_boot (Some demo_boot) ()
               two_kernel_state = (Inr (), snd two_kernel_run)"
    using ok by (simp add: two_kernel_run_def prod_eq_iff)
  have ks: "kernels two_kernel_state = [''linux'', ''linux-lts'']"
    by (simp add: two_kernel_state_def)
  have k: "single_line ''linux''" "single_line ''linux-lts''" by (simp_all add: single_line_def)
  have ps: "get_kernel_params (demo_env False) () = Inr [''root=UUID=0a1b'', ''rw'']"
    by (simp add: demo_env_def)
  have lines: "list_all single_line [''root=UUID=0a1b'', ''rw'']" by (simp add: single_line_def)
  from two_kernels_four_stanzas [OF run ks k ps lines] ok ks k ps lines show ?thesis
    by auto
qed

text \<open>
  Claim C7. For every kernel list the boot-menu file of a successful run starts with the line
  \<^verbatim>\<open>TIMEOUT=5\<close>, no later line is a timeout line, and every stanza of the file lies in the
  lines after it.
\<close>

theorem timeout_line_once_and_first:
  assumes "add_limine_bootloader env boot_partition efi_partition root s = (Inr u, s')"
      and "list_all single_line (kernels s)"
      and "get_kernel_params env root = Inr ps" and "list_all single_line ps"
  shows "\<exists>c rest. boot_menu s s' = Some c
           \<and> file_lines c = ''TIMEOUT=5'' # rest
           \<and> filter is_timeout (file_lines c) = [''TIMEOUT=5'']
           \<and> stanzas (file_lines c) = stanzas rest"
proof -
  from boot_menu_written [OF assms(1)] assms(3)
  have menu: "boot_menu s s' = Some (config_contents (kernel_params ps) (kernels s))"
    by simp
  have "filter is_timeout
          (concat (map (\<lambda>k. [] # stanza_lines (kernel_params ps) k ''''
                           @ [] # stanza_lines (kernel_params ps) k ''fallback'') ks) @ [[]]) = []"
    for ks
    by (induction ks) (simp_all add: is_timeout_def stanza_lines_def entry_def)
  then show ?thesis
    unfolding menu
    by (simp add: file_lines_config [OF single_line_kernel_params [OF assms(4)] assms(2)]
        is_timeout_def)
qed

theorem timeout_line_once_and_first_witness:
  "fst demo_bios_run = Inr () \<and> list_all single_line (kernels demo_state) \<and>
   get_kernel_params (demo_env False) () = Inr [''root=UUID=0a1b'', ''rw''] \<and>
   list_all single_line [''root=UUID=0a1b'', ''rw''] \<and>
   (\<exists>c. boot_menu demo_state (snd demo_bios_run) = Some c
       \<and> filter is_timeout (file_lines c) = [''TIMEOUT=5''])"
proof -
  have ok: "fst demo_bios_run = Inr ()" by (simp add: demo_bios_run_eq)
  have run: "add_limine_bootloader (demo_env False) demo_boot None () demo_state =
               (Inr (), snd demo_bios_run)"
    using ok by (simp add: demo_bios_run_def prod_eq_iff)
  have ks: "list_all single_line (kernels demo_state)"
    by (simp add: demo_state_def single_line_def)
  have ps: "get_kernel_params (demo_env False) () = Inr [''root=UUID=0a1b'', ''rw'']"
    by (simp add: demo_env_def)
  have lines: "list_all single_line [''root=UUID=0a1b'', ''rw'']" by (simp add: single_line_def)
  from timeout_line_once_and_first [OF run ks ps lines] ok ks ps lines show ?thesis
    by auto
qed

text \<open>
  Claim C9. For every kernel list, the label lines of the stanzas of the boot-menu file are,
  kernel after kernel, \<^verbatim>\<open>:Polaris Linux \<close> and \<^verbatim>\<open>:Polaris Linux fallback\<close>: a label is the fixed
  text followed by the variant and does not depend on the kernel identifier. So with two
  kernels or more, all primary stanzas carry one label and all fallback stanzas another.
\<close>

theorem labels_name_only_the_variant:
  assumes "add_limine_bootloader env boot_partition efi_partition root s = (Inr u, s')"
      and "list_all single_line (kernels s)"
      and "get_kernel_params env root = Inr ps" and "list_all single_line ps"
  shows "\<exists>c. boot_menu s s' = Some c
           \<and> map hd (stanzas (file_lines c)) =
               concat (map (\<lambda>k. ['':Polaris Linux '', '':Polaris Linux fallback'']) (kernels s))"
proof -
  from boot_menu_written [OF assms(1)] assms(3)
  have menu: "boot_menu s s' = Some (config_contents (kernel_params ps) (kernels s))"
    by simp
  show ?thesis
    unfolding menu
    by (simp add: stanzas_config [OF single_line_kernel_params [OF assms(4)] assms(2)]
        map_concat comp_def stanza_lines_def)
qed

theorem labels_name_only_the_variant_witness:
  "fst two_kernel_run = Inr () \<and> list_all single_line (kernels two_kernel_state) \<and>
   get_kernel_params (demo_env False) () = Inr [''root=UUID=0a1b'', ''rw''] \<and>
   list_all single_line [''root=UUID=0a1b'', ''rw''] \<and>
   (\<exists>c. boot_menu two_kernel_state (snd two_kernel_run) = Some c
       \<and> map hd (stanzas (file_lines c)) =
           ['':Polaris Linux '', '':Polaris Linux fallback'',
            '':Polaris Linux '', '':Polaris Linux fallback''])"
proof -
  have ok: "fst two_kernel_run = Inr ()"
    by (simp add: two_kernel_run_def two_kernel_state_def demo_run_returns)
  have run: "add_limine_bootloader (demo_env False) demo_boot (Some demo_boot) ()
               two_kernel_state = (Inr (), snd two_kernel_run)"
    using ok by (simp add: two_kernel_run_def prod_eq_iff)
  have ks: "list_all single_line (kernels two_kernel_state)"
    by (simp add: two_kernel_state_def single_line_def)
  have ps: "get_kernel_params (demo_env False) () = Inr [''root=UUID=0a1b'', ''rw'']"
    by (simp add: demo_env_def)
  have lines: "list_all single_line [''root=UUID=0a1b'', ''rw'']" by (simp add: single_line_def)
  from labels_name_only_the_variant [OF run ks ps lines] ok ks ps lines show ?thesis
    by (auto simp: two_kernel_state_def)
qed

text \<open>
  Claim C10. For every kernel list and every root, each stanza of the boot-menu file ends with
  the same command line: the parameters derived from the root, then \<^verbatim>\<open>quiet\<close>, then \<^verbatim>\<open>splash\<close>,
  joined by blanks. There are two stanzas for each kernel.
\<close>

theorem every_stanza_same_cmdline:
  assumes "add_limine_bootloader env boot_partition efi_partition root s = (Inr u, s')"
      and "list_all single_line (kernels s)"
      and "get_kernel_params env root = Inr ps" and "list_all single_line ps"
  shows "\<exists>c. boot_menu s s' = Some c
           \<and> map last (stanzas (file_lines c)) =
               replicate (2 * length (kernels s))
                 (''    CMDLINE='' @ join '' '' (ps @ [''quiet'', ''splash'']))"
proof -
  from boot_menu_written [OF assms(1)] assms(3)
  have menu: "boot_menu s s' = Some (config_contents (kernel_params ps) (kernels s))"
    by simp
  have "map last (stanzas (file_lines (config_contents (kernel_params ps) (kernels s)))) =
          concat (map (\<lambda>k. [''    CMDLINE='' @ kernel_params ps,
                             ''    CMDLINE='' @ kernel_params ps]) (kernels s))"
    by (simp add: stanzas_config [OF single_line_kernel_params [OF assms(4)] assms(2)]
        map_concat comp_def stanza_lines_def entry_def)
  then show ?thesis
    unfolding menu by (simp add: concat_pairs_replicate kernel_params_def)
qed

theorem every_stanza_same_cmdline_witness:
  "fst two_kernel_run = Inr () \<and> list_all single_line (kernels two_kernel_state) \<and>
   get_kernel_params (demo_env False) () = Inr [''root=UUID=0a1b'', ''rw''] \<and>
   list_all single_line [''root=UUID=0a1b'', ''rw''] \<and>
   (\<exists>c. boot_menu two_kernel_state (snd two_kernel_run) = Some c
       \<and> map last (stanzas (file_lines c)) =
           [''    CMDLINE=root=UUID=0a1b rw quiet splash'',
            ''    CMDLINE=root=UUID=0a1b rw quiet splash'',
            ''    CMDLINE=root=UUID=0a1b rw quiet splash'',
            ''    CMDLINE=root=UUID=0a1b rw quiet splash''])"
proof -
  have ok: "fst two_kernel_run = Inr ()"
    by (simp add: two_kernel_run_def two_kernel_state_def demo_run_returns)
  have run: "add_limine_bootloader (demo_env False) demo_boot (Some demo_boot) ()
               two_kernel_state = (Inr (), snd two_kernel_run)"
    using ok by (simp add: two_kernel_run_def prod_eq_iff)
  have ks: "list_all single_line (kernels two_kernel_state)"
    by (simp add: two_kernel_state_def single_line_def)
  have ps: "get_kernel_params (demo_env False) () = Inr [''root=UUID=0a1b'', ''rw'']"
    by (simp add: demo_env_def)
  have lines: "list_all single_line [''root=UUID=0a1b'', ''rw'']" by (simp add: single_line_def)
  from every_stanza_same_cmdline [OF run ks ps lines] ok ks ps lines show ?thesis
    by (auto simp: two_kernel_state_def numeral_eq_Suc)
qed

subsection \<open>The upgrade hook\<close>

text \<open>
  Claim C3. Take a successful run in which the EFI mount point (UEFI) or the resolved parent
  device (BIOS) is a path of plain components. The command in the \<^verbatim>\<open>Exec\<close> line of the hook
  file it wrote, run by the shell inside the installed system, places exactly what the
  installation placed. In UEFI mode these are the copies of \<^verbatim>\<open>BOOTIA32.EFI\<close> and
  \<^verbatim>\<open>BOOTX64.EFI\<close> from \<^verbatim>\<open>/usr/share/limine\<close> into \<^verbatim>\<open>EFI/BOOT\<close> under the mount point, in the
  same order. In BIOS mode these are \<^verbatim>\<open>limine bios-install\<close> on the same device, byte for
  byte, and the copy of \<^verbatim>\<open>limine-bios.sys\<close> into \<^verbatim>\<open>/boot\<close>; the hook does them in the opposite
  order, and it names the program \<^verbatim>\<open>/usr/bin/limine\<close> where the installation ran \<^verbatim>\<open>limine\<close>
  inside the target. The commands are thus the same in what they place, not in their text.
\<close>

theorem hook_replays_deployment:
  assumes run: "add_limine_bootloader env boot_partition efi_partition root s = (Inr u, s')"
      and uefi: "has_uefi env \<Longrightarrow>
                   efi_partition = Some e \<and> mountpoint e = Some mp \<and> plain_path mp"
      and bios: "\<not> has_uefi env \<Longrightarrow>
                   safe_dev_path boot_partition = Inr boot_dev
                 \<and> get_parent_device_path env boot_dev = Inr parent
                 \<and> get_unique_path_for_device env parent = Inr unique
                 \<and> dev = (case unique of Some alias \<Rightarrow> alias | None \<Rightarrow> parent)
                 \<and> plain_path dev"
  shows "\<exists>h command. hook_file s s' = Some h \<and> hook_exec h = Some command
           \<and> replay command =
               (if has_uefi env
                then [Some (CopyInto (Path Rooted [''usr'', ''share'', ''limine'', ''BOOTIA32.EFI''])
                                     (Path Rooted (parts mp @ [''EFI'', ''BOOT'']))),
                      Some (CopyInto (Path Rooted [''usr'', ''share'', ''limine'', ''BOOTX64.EFI''])
                                     (Path Rooted (parts mp @ [''EFI'', ''BOOT''])))]
                else [Some (BiosInstall (str_path dev)),
                      Some (CopyInto
                              (Path Rooted [''usr'', ''share'', ''limine'', ''limine-bios.sys''])
                              (Path Rooted [''boot'']))])
           \<and> placed (target s) (performed s s') =
               (if has_uefi env then replay command else rev (replay command))"
proof (cases "has_uefi env")
  case True
  from uefi [OF True] have e: "efi_partition = Some e" "mountpoint e = Some mp"
    and plain: "plain_path mp" by simp_all
  from run_uefi_success [OF True run] e obtain ps where abs: "anchor mp = Rooted"
    and s': "s' = s\<lparr>helper_flags := (helper_flags s)(''bootloader'' \<mapsto> ''limine''),
                    effects := effects s @
                      [Debug ''Installing limine bootloader'', Strap ''limine'',
                       Info (''Limine boot partition: '' @ str_opt_path (dev_path boot_partition)),
                       Info (''Limine EFI partition: '' @ str_opt_path (dev_path e)),
                       Mkdir (efi_dir_path (target s) (Path Unrooted (parts mp))),
                       Copy (slash (limine_path (target s)) ''BOOTIA32.EFI'')
                            (efi_dir_path (target s) (Path Unrooted (parts mp))),
                       Copy (slash (limine_path (target s)) ''BOOTX64.EFI'')
                            (efi_dir_path (target s) (Path Unrooted (parts mp))),
                       Mkdir (hooks_dir (target s)),
                       WriteText (hook_path (target s))
                         (hook_contents (''/usr/bin/cp /usr/share/limine/BOOTIA32.EFI ''
                            @ str_path mp @ ''/EFI/BOOT/''
                            @ '' && /usr/bin/cp /usr/share/limine/BOOTX64.EFI ''
                            @ str_path mp @ ''/EFI/BOOT/'')),
                       WriteText (config_path (target s))
                         (config_contents (kernel_params ps) (kernels s))]\<rparr>"
    by auto
  let ?command = "''/usr/bin/cp /usr/share/limine/BOOTIA32.EFI '' @ str_path mp @ ''/EFI/BOOT/''
                   @ '' && /usr/bin/cp /usr/share/limine/BOOTX64.EFI '' @ str_path mp
                   @ ''/EFI/BOOT/''"
  have hfile: "hook_file s s' = Some (hook_contents ?command)"
    using hook_not_config [of "target s"] by (simp add: s' hook_file_def performed_def)
  have exec: "hook_exec (hook_contents ?command) = Some ?command"
    using str_path_single_line [OF plain] by (intro hook_exec_hook_contents) simp
  have "performed s s' =
          [Debug ''Installing limine bootloader'', Strap ''limine'',
           Info (''Limine boot partition: '' @ str_opt_path (dev_path boot_partition)),
           Info (''Limine EFI partition: '' @ str_opt_path (dev_path e)),
           Mkdir (efi_dir_path (target s) (Path Unrooted (parts mp))),
           Copy (slash (limine_path (target s)) ''BOOTIA32.EFI'')
                (efi_dir_path (target s) (Path Unrooted (parts mp))),
           Copy (slash (limine_path (target s)) ''BOOTX64.EFI'')
                (efi_dir_path (target s) (Path Unrooted (parts mp))),
           Mkdir (hooks_dir (target s)),
           WriteText (hook_path (target s)) (hook_contents ?command),
           WriteText (config_path (target s))
             (config_contents (kernel_params ps) (kernels s))]"
    by (simp add: s' performed_def)
  then have placed_eq: "placed (target s) (performed s s') = replay ?command"
    unfolding replay_uefi_command [OF abs plain] by (simp only: placed_uefi)
  from hfile exec placed_eq replay_uefi_command [OF abs plain] True show ?thesis by simp
next
  case False
  from bios [OF False] have lookups: "safe_dev_path boot_partition = Inr boot_dev"
      "get_parent_device_path env boot_dev = Inr parent"
      "get_unique_path_for_device env parent = Inr unique"
    and dev: "dev = (case unique of Some alias \<Rightarrow> alias | None \<Rightarrow> parent)"
    and plain: "plain_path dev" by blast+
  from run_bios_success [OF False run] lookups dev obtain ps where
    s': "s' = s\<lparr>helper_flags := (helper_flags s)(''bootloader'' \<mapsto> ''limine''),
                    effects := effects s @
                      [Debug ''Installing limine bootloader'', Strap ''limine'',
                       Info (''Limine boot partition: '' @ str_opt_path (dev_path boot_partition)),
                       Copy (slash (limine_path (target s)) ''limine-bios.sys'')
                            (slash (target s) ''boot''),
                       SysCommand (''/usr/bin/arch-chroot '' @ str_path (target s)
                          @ '' limine bios-install '' @ str_path dev),
                       Mkdir (hooks_dir (target s)),
                       WriteText (hook_path (target s))
                         (hook_contents (''/usr/bin/limine bios-install '' @ str_path dev
                            @ '' && /usr/bin/cp /usr/share/limine/limine-bios.sys /boot/'')),
                       WriteText (config_path (target s))
                         (config_contents (kernel_params ps) (kernels s))]\<rparr>"
    by auto
  let ?command = "''/usr/bin/limine bios-install '' @ str_path dev
                   @ '' && /usr/bin/cp /usr/share/limine/limine-bios.sys /boot/''"
  have hfile: "hook_file s s' = Some (hook_contents ?command)"
    using hook_not_config [of "target s"] by (simp add: s' hook_file_def performed_def)
  have exec: "hook_exec (hook_contents ?command) = Some ?command"
    using str_path_single_line [OF plain] by (intro hook_exec_hook_contents) simp
  have "performed s s' =
          [Debug ''Installing limine bootloader'', Strap ''limine'',
           Info (''Limine boot partition: '' @ str_opt_path (dev_path boot_partition)),
           Copy (slash (limine_path (target s)) ''limine-bios.sys'') (slash (target s) ''boot''),
           SysCommand (''/usr/bin/arch-chroot '' @ str_path (target s)
              @ '' limine bios-install '' @ str_path dev),
           Mkdir (hooks_dir (target s)),
           WriteText (hook_path (target s)) (hook_contents ?command),
           WriteText (config_path (target s))
             (config_contents (kernel_params ps) (kernels s))]"
    by (simp add: s' performed_def)
  then have placed_eq: "placed (target s) (performed s s') =
      [Some (CopyInto (Path Rooted [''usr'', ''share'', ''limine'', ''limine-bios.sys''])
                      (Path Rooted [''boot''])),
       Some (BiosInstall (str_path dev))]"
    by (simp only: placed_bios [OF plain])
  from hfile exec placed_eq replay_bios_command [OF plain] False show ?thesis by simp
qed

theorem hook_replays_deployment_witness:
  "(has_uefi (demo_env True) \<and> fst demo_uefi_run = Inr () \<and> plain_path (Path Rooted [''boot''])
    \<and> (\<exists>h command. hook_file demo_state (snd demo_uefi_run) = Some h
          \<and> hook_exec h = Some command
          \<and> replay command =
               [Some (CopyInto (Path Rooted [''usr'', ''share'', ''limine'', ''BOOTIA32.EFI''])
                               (Path Rooted [''boot'', ''EFI'', ''BOOT''])),
                Some (CopyInto (Path Rooted [''usr'', ''share'', ''limine'', ''BOOTX64.EFI''])
                               (Path Rooted [''boot'', ''EFI'', ''BOOT'']))]
          \<and> placed (target demo_state) (performed demo_state (snd demo_uefi_run)) =
               replay command))
   \<and> (\<not> has_uefi (demo_env False) \<and> fst demo_bios_run = Inr ()
    \<and> plain_path (Path Rooted [''dev'', ''disk'', ''by-id'', ''ata-DISK''])
    \<and> (\<exists>h command. hook_file demo_state (snd demo_bios_run) = Some h
          \<and> hook_exec h = Some command
          \<and> replay command =
               [Some (BiosInstall ''/dev/disk/by-id/ata-DISK''),
                Some (CopyInto (Path Rooted [''usr'', ''share'', ''limine'', ''limine-bios.sys''])
                               (Path Rooted [''boot'']))]
          \<and> placed (target demo_state) (performed demo_state (snd demo_bios_run)) =
               rev (replay command)))
   \<and> (\<not> has_uefi no_alias_env \<and> fst no_alias_run = Inr ()
    \<and> plain_path (Path Rooted [''dev'', ''sda''])
    \<and> (\<exists>h command. hook_file demo_state (snd no_alias_run) = Some h
          \<and> hook_exec h = Some command
          \<and> replay command =
               [Some (BiosInstall ''/dev/sda''),
                Some (CopyInto (Path Rooted [''usr'', ''share'', ''limine'', ''limine-bios.sys''])
                               (Path Rooted [''boot'']))]
          \<and> placed (target demo_state) (performed demo_state (snd no_alias_run)) =
               rev (replay command)))"
proof -
  have plain: "plain_path (Path Rooted [''boot''])"
      "plain_path (Path Rooted [''dev'', ''disk'', ''by-id'', ''ata-DISK''])"
    by (simp_all add: plain_path_def plain_char_def)
  have uefi_ok: "fst demo_uefi_run = Inr ()" by (simp add: demo_uefi_run_eq)
  have uefi_run: "add_limine_bootloader (demo_env True) demo_boot (Some demo_boot) ()
                    demo_state = (Inr (), snd demo_uefi_run)"
    using uefi_ok by (simp add: demo_uefi_run_def prod_eq_iff)
  have bios_ok: "fst demo_bios_run = Inr ()" by (simp add: demo_bios_run_eq)
  have bios_run: "add_limine_bootloader (demo_env False) demo_boot None () demo_state =
                    (Inr (), snd demo_bios_run)"
    using bios_ok by (simp add: demo_bios_run_def prod_eq_iff)
  have efi: "Some demo_boot = Some demo_boot \<and> mountpoint demo_boot = Some (Path Rooted [''boot''])
               \<and> plain_path (Path Rooted [''boot''])"
    using plain by (simp add: demo_boot_def)
  have dev: "safe_dev_path demo_boot = Inr (Path Rooted [''dev'', ''sda1''])
           \<and> get_parent_device_path (demo_env uefi) (Path Rooted [''dev'', ''sda1'']) =
               Inr (Path Rooted [''dev'', ''sda''])
           \<and> get_unique_path_for_device (demo_env uefi) (Path Rooted [''dev'', ''sda'']) =
               Inr (Some (Path Rooted [''dev'', ''disk'', ''by-id'', ''ata-DISK'']))
           \<and> Path Rooted [''dev'', ''disk'', ''by-id'', ''ata-DISK''] =
               (case Some (Path Rooted [''dev'', ''disk'', ''by-id'', ''ata-DISK'']) of
                  Some alias \<Rightarrow> alias | None \<Rightarrow> Path Rooted [''dev'', ''sda''])
           \<and> plain_path (Path Rooted [''dev'', ''disk'', ''by-id'', ''ata-DISK''])" for uefi
    using plain by (simp add: demo_boot_def demo_env_def)
  have mode: "has_uefi (demo_env True)" "\<not> has_uefi (demo_env False)"
    by (simp_all add: demo_env_def)
  from hook_replays_deployment [OF uefi_run efi dev] mode(1)
  have first: "\<exists>h command. hook_file demo_state (snd demo_uefi_run) = Some h
          \<and> hook_exec h = Some command
          \<and> replay command =
               [Some (CopyInto (Path Rooted [''usr'', ''share'', ''limine'', ''BOOTIA32.EFI''])
                               (Path Rooted [''boot'', ''EFI'', ''BOOT''])),
                Some (CopyInto (Path Rooted [''usr'', ''share'', ''limine'', ''BOOTX64.EFI''])
                               (Path Rooted [''boot'', ''EFI'', ''BOOT'']))]
          \<and> placed (target demo_state) (performed demo_state (snd demo_uefi_run)) =
               replay command"
    by simp
  from hook_replays_deployment [OF bios_run _ dev, of demo_boot "Path Rooted [''boot'']"] mode(2)
  have second: "\<exists>h command. hook_file demo_state (snd demo_bios_run) = Some h
          \<and> hook_exec h = Some command
          \<and> replay command =
               [Some (BiosInstall ''/dev/disk/by-id/ata-DISK''),
                Some (CopyInto (Path Rooted [''usr'', ''share'', ''limine'', ''limine-bios.sys''])
                               (Path Rooted [''boot'']))]
          \<and> placed (target demo_state) (performed demo_state (snd demo_bios_run)) =
               rev (replay command)"
    by (simp add: str_path_def)
  have no_alias_ok: "fst no_alias_run = Inr ()"
    by (simp add: no_alias_run_def no_alias_env_def demo_defs add_limine_bootloader_def
        bios_branch_def write_hook_def write_config_def act_defs Let_def)
  have no_alias: "add_limine_bootloader no_alias_env demo_boot None () demo_state =
                    (Inr (), snd no_alias_run)"
    using no_alias_ok by (simp add: no_alias_run_def prod_eq_iff)
  have sda: "plain_path (Path Rooted [''dev'', ''sda''])"
    by (simp add: plain_path_def plain_char_def)
  have parent: "safe_dev_path demo_boot = Inr (Path Rooted [''dev'', ''sda1''])
           \<and> get_parent_device_path no_alias_env (Path Rooted [''dev'', ''sda1'']) =
               Inr (Path Rooted [''dev'', ''sda''])
           \<and> get_unique_path_for_device no_alias_env (Path Rooted [''dev'', ''sda'']) = Inr None
           \<and> Path Rooted [''dev'', ''sda''] =
               (case None of Some alias \<Rightarrow> alias | None \<Rightarrow> Path Rooted [''dev'', ''sda''])
           \<and> plain_path (Path Rooted [''dev'', ''sda''])"
    using sda by (simp add: demo_boot_def demo_env_def no_alias_env_def)
  have mode3: "\<not> has_uefi no_alias_env" by (simp add: no_alias_env_def demo_env_def)
  from hook_replays_deployment [OF no_alias _ parent, of demo_boot "Path Rooted [''boot'']"] mode3
  have third: "\<exists>h command. hook_file demo_state (snd no_alias_run) = Some h
          \<and> hook_exec h = Some command
          \<and> replay command =
               [Some (BiosInstall ''/dev/sda''),
                Some (CopyInto (Path Rooted [''usr'', ''share'', ''limine'', ''limine-bios.sys''])
                               (Path Rooted [''boot'']))]
          \<and> placed (target demo_state) (performed demo_state (snd no_alias_run)) =
               rev (replay command)"
    by (simp add: str_path_def)
  from first second third mode mode3 uefi_ok bios_ok no_alias_ok plain sda show ?thesis by simp
qed

text \<open>
  Claim C3 as it is written fails: lines 54-55 and 83 put the mount point into the command
  without quotes. With the EFI partition mounted at \<^verbatim>\<open>/my efi\<close> the run returns and has copied
  both stubs into \<^verbatim>\<open>/my efi/EFI/BOOT\<close>, but in the command of the hook each \<^verbatim>\<open>cp\<close> gets three
  arguments and puts nothing there.
\<close>

theorem hook_breaks_at_blank_in_mount_point:
  "fst blank_efi_run = Inr () \<and>
   Option.bind (hook_file demo_state (snd blank_efi_run)) hook_exec =
     Some (''/usr/bin/cp /usr/share/limine/BOOTIA32.EFI /my efi/EFI/BOOT/''
           @ '' && /usr/bin/cp /usr/share/limine/BOOTX64.EFI /my efi/EFI/BOOT/'') \<and>
   replay (''/usr/bin/cp /usr/share/limine/BOOTIA32.EFI /my efi/EFI/BOOT/''
           @ '' && /usr/bin/cp /usr/share/limine/BOOTX64.EFI /my efi/EFI/BOOT/'') =
     [None, None] \<and>
   placed (target demo_state) (performed demo_state (snd blank_efi_run)) =
     [Some (CopyInto (Path Rooted [''usr'', ''share'', ''limine'', ''BOOTIA32.EFI''])
                     (Path Rooted [''my efi'', ''EFI'', ''BOOT''])),
      Some (CopyInto (Path Rooted [''usr'', ''share'', ''limine'', ''BOOTX64.EFI''])
                     (Path Rooted [''my efi'', ''EFI'', ''BOOT'']))]"
proof -
  have run: "blank_efi_run =
     (Inr (), demo_state\<lparr>helper_flags := [''bootloader'' \<mapsto> ''limine''],
        effects :=
          [Debug ''Installing limine bootloader'', Strap ''limine'',
           Info ''Limine boot partition: /dev/sda1'',
           Info ''Limine EFI partition: /dev/sda1'',
           Mkdir (Path Rooted [''mnt'', ''my efi'', ''EFI'', ''BOOT'']),
           Copy (Path Rooted [''mnt'', ''usr'', ''share'', ''limine'', ''BOOTIA32.EFI''])
                (Path Rooted [''mnt'', ''my efi'', ''EFI'', ''BOOT'']),
           Copy (Path Rooted [''mnt'', ''usr'', ''share'', ''limine'', ''BOOTX64.EFI''])
                (Path Rooted [''mnt'', ''my efi'', ''EFI'', ''BOOT'']),
           Mkdir (Path Rooted [''mnt'', ''etc'', ''pacman.d'', ''hooks'']),
           WriteText (Path Rooted [''mnt'', ''etc'', ''pacman.d'', ''hooks'', ''99-limine.hook''])
             (hook_contents (''/usr/bin/cp /usr/share/limine/BOOTIA32.EFI /my efi/EFI/BOOT/''
                @ '' && /usr/bin/cp /usr/share/limine/BOOTX64.EFI /my efi/EFI/BOOT/'')),
           WriteText (Path Rooted [''mnt'', ''boot'', ''limine.cfg''])
             (config_contents ''root=UUID=0a1b rw quiet splash'' [''linux-zen''])]\<rparr>)"
    by (simp add: blank_efi_run_def blank_efi_def demo_defs add_limine_bootloader_def
        uefi_branch_def relative_to_root_def write_hook_def write_config_def act_defs path_defs
        kernel_params_def)
  have exec: "hook_exec (hook_contents
                (''/usr/bin/cp /usr/share/limine/BOOTIA32.EFI /my efi/EFI/BOOT/''
                 @ '' && /usr/bin/cp /usr/share/limine/BOOTX64.EFI /my efi/EFI/BOOT/'')) =
              Some (''/usr/bin/cp /usr/share/limine/BOOTIA32.EFI /my efi/EFI/BOOT/''
                 @ '' && /usr/bin/cp /usr/share/limine/BOOTX64.EFI /my efi/EFI/BOOT/'')"
    by (rule hook_exec_hook_contents) simp
  have hook: "Option.bind (hook_file demo_state (snd blank_efi_run)) hook_exec =
     Some (''/usr/bin/cp /usr/share/limine/BOOTIA32.EFI /my efi/EFI/BOOT/''
           @ '' && /usr/bin/cp /usr/share/limine/BOOTX64.EFI /my efi/EFI/BOOT/'')"
    using exec by (simp add: run hook_file_def performed_def demo_state_def path_defs)
  have words: "replay (''/usr/bin/cp /usr/share/limine/BOOTIA32.EFI /my efi/EFI/BOOT/''
           @ '' && /usr/bin/cp /usr/share/limine/BOOTX64.EFI /my efi/EFI/BOOT/'') =
     [None, None]"
    by (simp add: replay_def split_on_def)
  have copies: "placed (target demo_state) (performed demo_state (snd blank_efi_run)) =
     [Some (CopyInto (Path Rooted [''usr'', ''share'', ''limine'', ''BOOTIA32.EFI''])
                     (Path Rooted [''my efi'', ''EFI'', ''BOOT''])),
      Some (CopyInto (Path Rooted [''usr'', ''share'', ''limine'', ''BOOTX64.EFI''])
                     (Path Rooted [''my efi'', ''EFI'', ''BOOT'']))]"
    by (simp add: run performed_def demo_state_def inside_def)
  have returns: "fst blank_efi_run = Inr ()" by (simp add: run)
  show ?thesis by (intro conjI returns hook words copies)
qed

end
